theory Spec2Isabelle
  imports Complex_Main "HOL-Library.AList" "HOL-Library.Char_ord" "HOL-Library.List_Lexorder"
begin

section \<open>Strings and paths\<close>

text \<open>
  Python strings are modelled as \<open>string\<close>; a character stands for one code point
  below 256. \<open>str.strip()\<close> removes the characters for which \<open>str.isspace()\<close> holds.
\<close>

definition py_isspace :: "char \<Rightarrow> bool" where
  "py_isspace c = (c \<in> set [CHR 0x09, CHR 0x0A, CHR 0x0B, CHR 0x0C, CHR 0x0D,
     CHR 0x1C, CHR 0x1D, CHR 0x1E, CHR 0x1F, CHR 0x20, CHR 0x85, CHR 0xA0])"

definition strip :: "string \<Rightarrow> string" where
  "strip s = rev (dropWhile py_isspace (rev (dropWhile py_isspace s)))"


text \<open>\<open>s.replace("/", "--")\<close>\<close>

definition replace_slash :: "string \<Rightarrow> string" where
  "replace_slash s = concat (map (\<lambda>c. if c = CHR ''/'' then ''--'' else [c]) s)"

text \<open>\<open>s.split(d)\<close> for a one-character separator.\<close>

fun split_on :: "char \<Rightarrow> string \<Rightarrow> string list" where
  "split_on d [] = [[]]"
| "split_on d (c # cs) =
     (if c = d then [] # split_on d cs
      else (case split_on d cs of [] \<Rightarrow> [[c]] | u # us \<Rightarrow> (c # u) # us))"

text \<open>
  A \<open>pathlib.Path\<close> is modelled as the list of its components below the root
  (all paths of the module are absolute once \<open>resolve()\<close> has been applied to the
  store directory). Joining with \<open>/\<close> drops empty and \<open>.\<close> components and keeps
  \<open>..\<close>; an operand that starts with a slash replaces the left path.
\<close>

type_synonym path = "string list"

definition parts :: "string \<Rightarrow> path" where
  "parts s = filter (\<lambda>c. c \<noteq> [] \<and> c \<noteq> ''.'') (split_on CHR ''/'' s)"

definition path_div :: "path \<Rightarrow> string \<Rightarrow> path" where
  "path_div p s = (if s \<noteq> [] \<and> hd s = CHR ''/'' then parts s else p @ parts s)"

definition str_path :: "path \<Rightarrow> string" where
  "str_path p = (if p = [] then ''/'' else concat (map (\<lambda>c. CHR ''/'' # c) p))"

text \<open>\<open>Path.resolve()\<close> without symbolic links: \<open>..\<close> steps to the parent.\<close>

definition collapse :: "path \<Rightarrow> path" where
  "collapse p = foldl (\<lambda>acc c. if c = ''..'' then butlast acc else acc @ [c]) [] p"

section \<open>The file system\<close>

text \<open>
  A directory tree. A directory holds named entries; where a name occurs twice the
  first entry is the one the directory has.
\<close>

datatype tree = File | Dir "(string \<times> tree) list"

datatype kind = KFile | KDir

fun kind_of :: "tree \<Rightarrow> kind" where
  "kind_of File = KFile"
| "kind_of (Dir es) = KDir"

fun get :: "tree \<Rightarrow> path \<Rightarrow> tree option" where
  "get t [] = Some t"
| "get File (c # cs) = None"
| "get (Dir es) (c # cs) = (case map_of es c of None \<Rightarrow> None | Some u \<Rightarrow> get u cs)"

definition kind_at :: "tree \<Rightarrow> path \<Rightarrow> kind option" where
  "kind_at t p = map_option kind_of (get t p)"

text \<open>
  Path resolution by the operating system: every component is looked up in a
  directory, and \<open>..\<close> leads to the parent of the directory reached so far.
\<close>

fun realpath_from :: "tree \<Rightarrow> path \<Rightarrow> path \<Rightarrow> path option" where
  "realpath_from t cur [] = Some cur"
| "realpath_from t cur (c # cs) =
     (if kind_at t cur = Some KDir
      then realpath_from t (if c = ''..'' then butlast cur else cur @ [c]) cs
      else None)"

definition stat :: "tree \<Rightarrow> path \<Rightarrow> kind option" where
  "stat t p = (case realpath_from t [] p of None \<Rightarrow> None | Some q \<Rightarrow> kind_at t q)"

definition is_dir :: "tree \<Rightarrow> path \<Rightarrow> bool" where
  "is_dir t p = (stat t p = Some KDir)"

definition is_file :: "tree \<Rightarrow> path \<Rightarrow> bool" where
  "is_file t p = (stat t p = Some KFile)"

definition exists_path :: "tree \<Rightarrow> path \<Rightarrow> bool" where
  "exists_path t p = (stat t p \<noteq> None)"

text \<open>The entries a directory has: the first entry of each name.\<close>

definition entries :: "(string \<times> tree) list \<Rightarrow> (string \<times> tree) list" where
  "entries es = filter (\<lambda>e. map_of es (fst e) = Some (snd e)) es"

text \<open>Every proper descendant of a tree, with its path relative to the tree.\<close>

function walk_tree :: "tree \<Rightarrow> (path \<times> kind) list" where
  "walk_tree File = []"
| "walk_tree (Dir es) =
     concat (map (\<lambda>e. ([fst e], kind_of (snd e)) #
                       map (\<lambda>r. (fst e # fst r, snd r)) (walk_tree (snd e)))
                 (entries es))"
  by pat_completeness auto
termination
proof (relation "measure size")
  fix es :: "(string \<times> tree) list" and e
  assume "e \<in> set (entries es)"
  then have "e \<in> set es" by (simp add: entries_def)
  then have "size (snd e) < size (Dir es)"
    by (induction es) auto
  then show "(snd e, Dir es) \<in> measure size" by simp
qed simp

text \<open>
  \<open>Path.rglob\<close>: the descendants of directory \<open>d\<close> whose relative path the pattern
  accepts, each as \<open>d / relative\<close> together with what it is.
\<close>

definition rglob :: "tree \<Rightarrow> path \<Rightarrow> (path \<Rightarrow> bool) \<Rightarrow> (path \<times> kind) list" where
  "rglob t d accepts =
     (case realpath_from t [] d of
        None \<Rightarrow> []
      | Some q \<Rightarrow>
         (case get t q of
            None \<Rightarrow> []
          | Some sub \<Rightarrow> map (\<lambda>r. (d @ fst r, snd r)) (filter (\<lambda>r. accepts (fst r)) (walk_tree sub))))"

text \<open>
  \<open>Path.mkdir(parents=True, exist_ok=True)\<close> on a path without \<open>..\<close>: existing
  directories are kept, missing ones are created, and a file in the way is an
  \<open>OSError\<close> (the result \<open>None\<close>).
\<close>

fun mkdirs :: "tree \<Rightarrow> path \<Rightarrow> tree option" where
  "mkdirs File p = None"
| "mkdirs (Dir es) [] = Some (Dir es)"
| "mkdirs (Dir es) (c # cs) =
     (case map_of es c of
        None \<Rightarrow> map_option (\<lambda>u. Dir ((c, u) # es)) (mkdirs (Dir []) cs)
      | Some u \<Rightarrow> map_option (\<lambda>u'. Dir (AList.update c u' es)) (mkdirs u cs))"

definition mkdir_p :: "tree \<Rightarrow> path \<Rightarrow> tree option" where
  "mkdir_p t p = mkdirs t (collapse p)"

text \<open>
  \<open>Path.touch(exist_ok=True)\<close> on a path without \<open>..\<close>: an existing entry is left
  as it is, a missing one is created as an empty file when its parent is a
  directory; otherwise \<open>OSError\<close> (the result \<open>None\<close>).
\<close>

fun touch :: "tree \<Rightarrow> path \<Rightarrow> tree option" where
  "touch t [] = Some t"
| "touch File (c # cs) = None"
| "touch (Dir es) (c # cs) =
     (case map_of es c of
        None \<Rightarrow> (if cs = [] then Some (Dir ((c, File) # es)) else None)
      | Some u \<Rightarrow> map_option (\<lambda>u'. Dir (AList.update c u' es)) (touch u cs))"

section \<open>The configuration snapshot\<close>

text \<open>
  The fields of \<open>Settings\<close> (\<open>app/config.py\<close>), in the order of the class.
  Floating-point fields are modelled as real numbers.
\<close>

record Settings =
  app_name :: string
  app_version :: string
  log_level :: string
  verbose_logs :: bool
  model_name :: string
  model_store_dir :: string
  require_local_model_store :: bool
  auto_download_model_store :: bool
  model_force_download :: bool
  model_repo_id :: string
  model_filename :: "string option"
  hf_token :: "string option"
  startup_compat_check :: bool
  vllm_base_url :: string
  vllm_api_key :: string
  vllm_model_id :: string
  vllm_timeout_seconds :: int
  vllm_startup_timeout_seconds :: int
  vllm_host :: string
  vllm_port :: int
  vllm_dtype :: string
  vllm_max_model_len :: int
  vllm_tensor_parallel_size :: int
  vllm_gpu_memory_utilization :: real
  vllm_trust_remote_code :: bool
  vllm_enforce_eager :: bool
  vllm_disable_mm_preprocessor_cache :: bool
  vllm_additional_args :: "string option"
  temperature :: real
  top_k :: int
  top_p :: real
  max_tokens :: int
  inference_timeout_seconds :: int
  max_upload_megabytes :: int
  ocr_prompt :: string

section \<open>The model store (\<open>app/model_store.py\<close>)\<close>

text \<open>
  What the module reads and changes outside itself: the file system, the process
  environment that makes a configured directory absolute (\<open>expanduser\<close> and the
  working directory), the pattern language of \<open>rglob\<close> (\<open>None\<close> for a pattern that
  \<open>rglob\<close> rejects), whether \<open>huggingface_hub\<close> can be imported, the parameter names
  its \<open>snapshot_download\<close> accepts, what a call of \<open>snapshot_download\<close> does to the
  file system (\<open>None\<close> when it raises), and whether the marker file can be written.
  \<open>fetches\<close> records every call of \<open>snapshot_download\<close> with its keyword
  arguments, \<open>logged\<close> the log records.
\<close>

datatype kwarg = VStr string | VBool bool | VList "string list" | VNone

type_synonym kwargs = "(string \<times> kwarg) list"

datatype log_event = Info string | Warning string

record world =
  fs :: tree
  absolute :: "string \<Rightarrow> path"
  glob_pattern :: "string \<Rightarrow> (path \<Rightarrow> bool) option"
  hub_installed :: bool
  snapshot_params :: "string list"
  registry :: "kwargs \<Rightarrow> tree \<Rightarrow> tree option"
  marker_writable :: bool
  fetches :: "kwargs list"
  logged :: "log_event list"

text \<open>The four \<open>RuntimeError\<close>s of the module, and the errors of the library calls.\<close>

datatype runtime_error =
    Artifacts_required_but_missing path
  | Bootstrap_finished_without_artifacts path
  | Hub_client_required
  | Download_failed string path

datatype exn = RuntimeError runtime_error | OSError | PatternError

text \<open>\<open>Path(settings.model_store_dir).expanduser().resolve()\<close>\<close>

definition resolve_store_dir :: "Settings \<Rightarrow> world \<Rightarrow> path" where
  "resolve_store_dir settings w = collapse (absolute w (model_store_dir settings))"

definition resolve_repo_dir :: "Settings \<Rightarrow> world \<Rightarrow> path" where
  "resolve_repo_dir settings w =
     (let model_store_dir = resolve_store_dir settings w
      in path_div model_store_dir (replace_slash (model_repo_id settings)))"

definition write_bootstrap_marker :: "path \<Rightarrow> world \<Rightarrow> world" where
  "write_bootstrap_marker store_dir w =
     (let marker = path_div store_dir ''.model_store_ready''
      in case (if marker_writable w then touch (fs w) marker else None) of
           Some t \<Rightarrow> w\<lparr>fs := t\<rparr>
         | None \<Rightarrow> w\<lparr>logged := logged w @ [Warning ''Failed to update model_store bootstrap marker'']\<rparr>)"

definition wildcard_chars :: "char list" where
  "wildcard_chars = [CHR ''*'', CHR ''?'', CHR ''['']"

definition find_model_file :: "world \<Rightarrow> path \<Rightarrow> string \<Rightarrow> exn + path option" where
  "find_model_file w repo_dir filename_pattern =
     (if \<not> exists_path (fs w) repo_dir \<or> \<not> is_dir (fs w) repo_dir then Inr None
      else
        let normalized = strip filename_pattern in
        if normalized = [] then Inr None
        else
          let direct = collapse (path_div repo_dir normalized) in
          if \<not> list_ex (\<lambda>c. c \<in> set normalized) wildcard_chars
             \<and> exists_path (fs w) direct \<and> is_file (fs w) direct
          then Inr (Some direct)
          else
            (case glob_pattern w normalized of
               None \<Rightarrow> Inl PatternError
             | Some accepts \<Rightarrow>
                 let matches = sort (map fst (filter (\<lambda>r. snd r = KFile) (rglob (fs w) repo_dir accepts)))
                 in if matches \<noteq> [] then Inr (Some (hd matches)) else Inr None))"

text \<open>Python's truth value of a \<open>str | None\<close>.\<close>

definition truthy :: "string option \<Rightarrow> bool" where
  "truthy v = (case v of None \<Rightarrow> False | Some s \<Rightarrow> s \<noteq> [])"

definition has_expected_artifacts :: "world \<Rightarrow> path \<Rightarrow> string option \<Rightarrow> exn + bool" where
  "has_expected_artifacts w repo_dir filename =
     (if \<not> exists_path (fs w) repo_dir \<or> \<not> is_dir (fs w) repo_dir then Inr False
      else if truthy filename then
        (case find_model_file w repo_dir (the filename) of
           Inl e \<Rightarrow> Inl e
         | Inr found \<Rightarrow> Inr (found \<noteq> None))
      else Inr (list_ex (\<lambda>r. snd r = KFile) (rglob (fs w) repo_dir (\<lambda>rel. True))))"

definition snapshot_kwargs :: "Settings \<Rightarrow> path \<Rightarrow> kwargs" where
  "snapshot_kwargs settings repo_dir =
     [(''repo_id'', VStr (model_repo_id settings)),
      (''local_dir'', VStr (str_path repo_dir)),
      (''token'', (case hf_token settings of None \<Rightarrow> VNone | Some tok \<Rightarrow> VStr tok)),
      (''force_download'', VBool (model_force_download settings))]
     @ (if truthy (model_filename settings)
        then [(''allow_patterns'', VList [the (model_filename settings)])] else [])"

definition download_model_snapshot :: "Settings \<Rightarrow> path \<Rightarrow> world \<Rightarrow> (exn + unit) \<times> world" where
  "download_model_snapshot settings store_dir w =
     (if \<not> hub_installed w then (Inl (RuntimeError Hub_client_required), w)
      else
        (case mkdir_p (fs w) store_dir of
           None \<Rightarrow> (Inl OSError, w)
         | Some t1 \<Rightarrow>
            let repo_dir = resolve_repo_dir settings w in
            (case mkdir_p t1 repo_dir of
               None \<Rightarrow> (Inl OSError, w\<lparr>fs := t1\<rparr>)
             | Some t2 \<Rightarrow>
                let w2 = w\<lparr>fs := t2,
                           logged := logged w @ [Info ''Downloading model snapshot into model_store'']\<rparr>;
                    kwargs = snapshot_kwargs settings repo_dir;
                    filtered_kwargs =
                      filter (\<lambda>kv. fst kv \<in> set (snapshot_params w) \<and> snd kv \<noteq> VNone) kwargs;
                    w3 = w2\<lparr>fetches := fetches w2 @ [filtered_kwargs]\<rparr>
                in (case registry w filtered_kwargs t2 of
                      None \<Rightarrow>
                        (Inl (RuntimeError (Download_failed (model_repo_id settings) repo_dir)), w3)
                    | Some t3 \<Rightarrow>
                        (Inr (), w3\<lparr>fs := t3, logged := logged w3 @ [Info ''Model snapshot ready'']\<rparr>)))))"

text \<open>
  \<open>ensure_model_store\<close>: the result is the exception raised or the value returned
  (\<open>None\<close>, or the string of the store directory, kept as the path it is the string
  of), together with the world the call leaves behind.
\<close>

definition ensure_model_store :: "Settings \<Rightarrow> world \<Rightarrow> (exn + path option) \<times> world" where
  "ensure_model_store settings w =
     (let should_bootstrap =
            (require_local_model_store settings
             \<or> auto_download_model_store settings
             \<or> model_force_download settings)
      in
      if \<not> should_bootstrap then (Inr None, w)
      else
        let model_store_dir = resolve_store_dir settings w in
        (case mkdir_p (fs w) model_store_dir of
           None \<Rightarrow> (Inl OSError, w)
         | Some t1 \<Rightarrow>
            let w1 = w\<lparr>fs := t1\<rparr>;
                repo_dir = resolve_repo_dir settings w1 in
            (case has_expected_artifacts w1 repo_dir (model_filename settings) of
               Inl e \<Rightarrow> (Inl e, w1)
             | Inr has_expected \<Rightarrow>
                if has_expected \<and> \<not> model_force_download settings
                then (Inr (Some model_store_dir), write_bootstrap_marker model_store_dir w1)
                else
                  let should_download =
                        (model_force_download settings \<or> auto_download_model_store settings) in
                  if \<not> should_download then
                    (if require_local_model_store settings
                     then (Inl (RuntimeError (Artifacts_required_but_missing repo_dir)), w1)
                     else (Inr None, w1))
                  else
                    (case download_model_snapshot settings model_store_dir w1 of
                       (Inl e, w2) \<Rightarrow> (Inl e, w2)
                     | (Inr u, w2) \<Rightarrow>
                        (case has_expected_artifacts w2 repo_dir (model_filename settings) of
                           Inl e \<Rightarrow> (Inl e, w2)
                         | Inr has_now \<Rightarrow>
                            if \<not> has_now
                            then (Inl (RuntimeError (Bootstrap_finished_without_artifacts repo_dir)), w2)
                            else (Inr (Some model_store_dir),
                                  write_bootstrap_marker model_store_dir w2))))))"


section \<open>Examples\<close>

text \<open>A configuration with the defaults of \<open>config.py\<close> (an absolute store directory, a
  short prompt) and a world with an empty file system and a registry that delivers nothing.\<close>

definition example_settings :: Settings where
  "example_settings =
     \<lparr>app_name = ''Sharifsetup-OCR'', app_version = ''1.0.0'', log_level = ''INFO'',
      verbose_logs = False, model_name = ''Sharifsetup-OCR'',
      model_store_dir = ''/srv/ocr/model_store'',
      require_local_model_store = True, auto_download_model_store = False,
      model_force_download = False, model_repo_id = ''allenai/olmOCR-2-7B-1025-FP8'',
      model_filename = None, hf_token = None, startup_compat_check = True,
      vllm_base_url = ''http://127.0.0.1:8001'', vllm_api_key = ''EMPTY'',
      vllm_model_id = ''Sharifsetup-OCR'', vllm_timeout_seconds = 120,
      vllm_startup_timeout_seconds = 600, vllm_host = ''0.0.0.0'', vllm_port = 8001,
      vllm_dtype = ''bfloat16'', vllm_max_model_len = 8192, vllm_tensor_parallel_size = 1,
      vllm_gpu_memory_utilization = 0.9, vllm_trust_remote_code = False,
      vllm_enforce_eager = False, vllm_disable_mm_preprocessor_cache = False,
      vllm_additional_args = None, temperature = 0, top_k = 1, top_p = 1,
      max_tokens = 4096, inference_timeout_seconds = 90, max_upload_megabytes = 15,
      ocr_prompt = ''Extract the text as Markdown.''\<rparr>"

definition example_world :: world where
  "example_world =
     \<lparr>fs = Dir [],
      absolute = parts,
      glob_pattern = (\<lambda>pat. if hd pat = CHR ''/'' then None
                             else Some (\<lambda>rel. rel \<noteq> [] \<and> last rel = pat)),
      hub_installed = True,
      snapshot_params = [''repo_id'', ''local_dir'', ''token'', ''force_download'', ''allow_patterns''],
      registry = (\<lambda>kw t. Some t),
      marker_writable = True,
      fetches = [],
      logged = []\<rparr>"


text \<open>The same settings with the first-run download switched on, and the tree the empty
  file system becomes once the store directory has been created.\<close>

definition download_settings :: Settings where
  "download_settings = example_settings\<lparr>auto_download_model_store := True\<rparr>"

definition example_store_tree :: tree where
  "example_store_tree = Dir [(''srv'', Dir [(''ocr'', Dir [(''model_store'', Dir [])])])]"

text \<open>A world whose store already holds the snapshot of the default repository.\<close>

definition cached_world :: world where
  "cached_world = example_world\<lparr>fs :=
     Dir [(''srv'', Dir [(''ocr'', Dir [(''model_store'',
       Dir [(''allenai--olmOCR-2-7B-1025-FP8'', Dir [(''model.safetensors'', File)])])])])]\<rparr>"

text \<open>A world whose registry delivers one file into the artifact directory of the default
  repository; settings with the force flag set; a world without the hub client.\<close>

definition delivering_world :: world where
  "delivering_world = example_world\<lparr>registry := (\<lambda>kw t.
     touch t [''srv'', ''ocr'', ''model_store'', ''allenai--olmOCR-2-7B-1025-FP8'',
              ''model.safetensors''])\<rparr>"

definition force_settings :: Settings where
  "force_settings = example_settings\<lparr>model_force_download := True\<rparr>"

definition no_hub_world :: world where
  "no_hub_world = cached_world\<lparr>hub_installed := False\<rparr>"

section \<open>Construction of the configuration (\<open>app/config.py\<close>)\<close>




















text \<open>The property \<open>max_upload_bytes\<close>.\<close>

definition max_upload_bytes :: "Settings \<Rightarrow> int" where
  "max_upload_bytes settings = max_upload_megabytes settings * 1024 * 1024"




section \<open>The request pipeline (\<open>main.py\<close>)\<close>

text \<open>
  The upload as the handler receives it: the declared content type and the bytes that
  \<open>file.read()\<close> returns.  A request carries the value of its \<open>x-request-id\<close>
  header, if it has one, and the \<open>file\<close> field of its form; a request without that
  field is rejected by the framework with a \<open>RequestValidationError\<close> before the
  handler runs.
\<close>

type_synonym bytes = "char list"

record UploadFile =
  content_type :: "string option"
  contents :: bytes

record Request =
  x_request_id :: "string option"
  file_field :: "UploadFile option"

text \<open>
  One run of \<open>vllm_client.run_ocr\<close>: the time in seconds after which it ends
  (\<open>None\<close>: it never does) and how it ends.  \<open>Raises_TimeoutError\<close> is
  \<open>asyncio.TimeoutError\<close>.
\<close>

datatype backend_outcome =
    Returns string
  | Raises_VLLMTimeoutError
  | Raises_TimeoutError
  | Raises_VLLMError
  | Raises_Exception

record backend_run =
  ends_after :: "real option"
  outcome :: backend_outcome

text \<open>
  What the modules outside \<open>main.py\<close> and the libraries contribute: the allow-list, the
  two image helpers (each returns a string or raises), the backend, the identifiers
  \<open>uuid4()\<close> yields one after the other, and the milliseconds the clock measures for
  the handler.
\<close>

datatype handler_exn =
    APIError nat string string
  | RequestValidationError string
  | Unexpected

record app_env =
  ALLOWED_CONTENT_TYPES :: "string list"
  normalize_image_mime_type :: "string \<Rightarrow> handler_exn + string"
  to_data_url :: "bytes \<Rightarrow> string \<Rightarrow> handler_exn + string"
  run_ocr :: "string \<Rightarrow> backend_run"
  uuid4 :: "nat \<Rightarrow> string"
  elapsed_ms :: int
  validation_message :: string

datatype event =
    Read_upload
  | Close_upload
  | Invoke_backend string
  | Log_info string
  | Log_error string

text \<open>The response models of \<open>app.schemas\<close>, by their fields in the order the handlers
  give them.\<close>

datatype content =
    OCRResponse string string string int
  | ErrorResponse string string string

fun content_request_id :: "content \<Rightarrow> string" where
  "content_request_id (OCRResponse request_id model markdown processing_ms) = request_id"
| "content_request_id (ErrorResponse request_id error_code message) = request_id"

fun content_error_code :: "content \<Rightarrow> string option" where
  "content_error_code (OCRResponse request_id model markdown processing_ms) = None"
| "content_error_code (ErrorResponse request_id error_code message) = Some error_code"

record Response =
  status_code :: nat
  response_x_request_id :: "string option"
  body :: content

text \<open>\<open>str(n)\<close> for an integer, and the \<open>str\<close> of an optional string in an f-string.\<close>

fun str_nat :: "nat \<Rightarrow> string" where
  "str_nat n =
     (if n < 10 then [char_of (48 + n)]
      else str_nat (n div 10) @ [char_of (48 + n mod 10)])"

declare str_nat.simps [simp del]

definition str_int :: "int \<Rightarrow> string" where
  "str_int i = (if i < 0 then CHR ''-'' # str_nat (nat (- i)) else str_nat (nat i))"

definition str_option :: "string option \<Rightarrow> string" where
  "str_option v = (case v of None \<Rightarrow> ''None'' | Some s \<Rightarrow> s)"

text \<open>
  \<open>asyncio.wait_for(run, timeout)\<close>: a run that has not ended when the timeout has
  passed is cancelled and \<open>asyncio.TimeoutError\<close> is raised; otherwise the run's own
  outcome is the outcome.
\<close>

definition wait_for :: "backend_run \<Rightarrow> int \<Rightarrow> backend_outcome" where
  "wait_for run timeout =
     (case ends_after run of
        None \<Rightarrow> Raises_TimeoutError
      | Some t \<Rightarrow> if real_of_int timeout < t then Raises_TimeoutError else outcome run)"

text \<open>\<open>content_type in ALLOWED_CONTENT_TYPES\<close>, for a content type that may be \<open>None\<close>.\<close>

definition allowed_content_type :: "app_env \<Rightarrow> string option \<Rightarrow> bool" where
  "allowed_content_type env declared =
     (case declared of None \<Rightarrow> False | Some c \<Rightarrow> c \<in> set (ALLOWED_CONTENT_TYPES env))"

text \<open>
  The handler \<open>ocr\<close>: the exception it raises or the model it returns, and what it did
  on the way.
\<close>

definition ocr :: "app_env \<Rightarrow> Settings \<Rightarrow> string \<Rightarrow> UploadFile \<Rightarrow> (handler_exn + content) \<times> event list" where
  "ocr env runtime_settings request_id file =
     (if \<not> allowed_content_type env (content_type file)
      then (Inl (APIError 415 ''unsupported_media_type''
                   (''Unsupported file type: '' @ str_option (content_type file))), [])
      else
        let payload = contents file;
            read = [Read_upload, Close_upload] in
        if payload = []
        then (Inl (APIError 400 ''empty_file'' ''Uploaded file is empty.''), read)
        else if int (length payload) > max_upload_bytes runtime_settings
        then (Inl (APIError 413 ''file_too_large''
                     (''File exceeds '' @ str_int (max_upload_megabytes runtime_settings)
                      @ ''MB limit.'')), read)
        else
          let accepted = read @ [Log_info ''OCR request accepted''];
              declared = (if truthy (content_type file) then the (content_type file)
                          else ''image/jpeg'') in
          (case normalize_image_mime_type env declared of
             Inl e \<Rightarrow> (Inl e, accepted)
           | Inr mime_type \<Rightarrow>
              (case to_data_url env payload mime_type of
                 Inl e \<Rightarrow> (Inl e, accepted)
               | Inr image_data_url \<Rightarrow>
                  let invoked = accepted @ [Invoke_backend image_data_url] in
                  (case wait_for (run_ocr env image_data_url)
                          (inference_timeout_seconds runtime_settings) of
                     Raises_TimeoutError \<Rightarrow>
                       (Inl (APIError 408 ''inference_timeout'' ''Inference timed out.''),
                        invoked @ [Log_error ''vLLM inference timeout''])
                   | Raises_VLLMTimeoutError \<Rightarrow>
                       (Inl (APIError 408 ''inference_timeout'' ''Inference timed out.''),
                        invoked @ [Log_error ''vLLM inference timeout''])
                   | Raises_VLLMError \<Rightarrow>
                       (Inl (APIError 503 ''inference_failure'' ''Model inference failed.''),
                        invoked @ [Log_error ''vLLM inference failure''])
                   | Raises_Exception \<Rightarrow>
                       (Inl (APIError 503 ''inference_failure'' ''Model inference failed.''),
                        invoked @ [Log_error ''Unexpected inference failure''])
                   | Returns markdown \<Rightarrow>
                       (Inr (OCRResponse request_id (model_name runtime_settings)
                               (strip markdown) (elapsed_ms env)),
                        invoked)))))"

text \<open>
  The exception handlers.  Each takes the request id from \<open>request.state\<close> and falls
  back to a new identifier (the \<open>k\<close>-th of the environment) when the state has none.
\<close>

definition state_request_id :: "app_env \<Rightarrow> nat \<Rightarrow> string option \<Rightarrow> string" where
  "state_request_id env k state = (case state of Some request_id \<Rightarrow> request_id | None \<Rightarrow> uuid4 env k)"

definition api_error_handler :: "app_env \<Rightarrow> nat \<Rightarrow> string option \<Rightarrow> nat \<Rightarrow> string \<Rightarrow> string \<Rightarrow> Response" where
  "api_error_handler env k state exc_status_code exc_error_code exc_message =
     \<lparr>status_code = exc_status_code, response_x_request_id = None,
      body = ErrorResponse (state_request_id env k state) exc_error_code exc_message\<rparr>"

definition validation_error_handler :: "app_env \<Rightarrow> nat \<Rightarrow> string option \<Rightarrow> string \<Rightarrow> Response" where
  "validation_error_handler env k state exc_str =
     \<lparr>status_code = 422, response_x_request_id = None,
      body = ErrorResponse (state_request_id env k state) ''validation_error'' exc_str\<rparr>"

definition generic_error_handler :: "app_env \<Rightarrow> nat \<Rightarrow> string option \<Rightarrow> Response" where
  "generic_error_handler env k state =
     \<lparr>status_code = 500, response_x_request_id = None,
      body = ErrorResponse (state_request_id env k state) ''internal_server_error''
               ''Unexpected server error.''\<rparr>"

text \<open>
  One request through the application, from the inside out.  \<open>call_next\<close> is the route
  with the handlers of \<open>APIError\<close> and \<open>RequestValidationError\<close> around it; a request
  without the \<open>file\<close> field is rejected before the handler runs; any other exception
  passes through.  \<open>request_context_middleware\<close> fixes the request id, stores it in
  \<open>request.state\<close>, and completes a response with the header or logs an exception and
  raises it again.  An exception that leaves the middleware is answered by
  \<open>generic_error_handler\<close> on the same request state.
\<close>

definition call_next :: "app_env \<Rightarrow> Settings \<Rightarrow> string option \<Rightarrow> Request \<Rightarrow> (handler_exn + Response) \<times> event list" where
  "call_next env runtime_settings state request =
     (let (result, events) =
            (case file_field request of
               None \<Rightarrow> (Inl (RequestValidationError (validation_message env)), [])
             | Some file \<Rightarrow>
                 (case state of
                    None \<Rightarrow> (Inl Unexpected, [])
                  | Some request_id \<Rightarrow> ocr env runtime_settings request_id file))
      in case result of
           Inr model \<Rightarrow>
             (Inr \<lparr>status_code = 200, response_x_request_id = None, body = model\<rparr>, events)
         | Inl (APIError exc_status_code exc_error_code exc_message) \<Rightarrow>
             (Inr (api_error_handler env 1 state exc_status_code exc_error_code exc_message),
              events @ [Log_error ''API error''])
         | Inl (RequestValidationError exc_str) \<Rightarrow>
             (Inr (validation_error_handler env 1 state exc_str),
              events @ [Log_error ''Validation error''])
         | Inl Unexpected \<Rightarrow> (Inl Unexpected, events))"

definition request_context_middleware ::
  "app_env \<Rightarrow> Settings \<Rightarrow> Request \<Rightarrow> ((handler_exn + Response) \<times> string option) \<times> event list" where
  "request_context_middleware env runtime_settings request =
     (let request_id = (case x_request_id request of Some v \<Rightarrow> v | None \<Rightarrow> uuid4 env 0);
          state = Some request_id;
          (result, events) = call_next env runtime_settings state request
      in case result of
           Inl e \<Rightarrow> ((Inl e, state), events @ [Log_error ''Request failed''])
         | Inr response \<Rightarrow>
             ((Inr (response\<lparr>response_x_request_id := Some request_id\<rparr>), state),
              events @ [Log_info ''Request completed'']))"

definition app :: "app_env \<Rightarrow> Settings \<Rightarrow> Request \<Rightarrow> Response \<times> event list" where
  "app env runtime_settings request =
     (case request_context_middleware env runtime_settings request of
        ((Inr response, state), events) \<Rightarrow> (response, events)
      | ((Inl e, state), events) \<Rightarrow>
          (generic_error_handler env 1 state, events @ [Log_error ''Unhandled server error'']))"

text \<open>Environments for the examples: JPEG and PNG are allowed, and the backend answers
  after two seconds, or after two minutes; uploads of four bytes and of one byte more than
  fifteen megabytes.\<close>

definition example_env :: app_env where
  "example_env =
     \<lparr>ALLOWED_CONTENT_TYPES = [''image/jpeg'', ''image/png''],
      normalize_image_mime_type = Inr,
      to_data_url = (\<lambda>image_bytes mime_type. Inr (''data:'' @ mime_type @ '';base64,'')),
      run_ocr = (\<lambda>url. \<lparr>ends_after = Some 2, outcome = Returns '' Hello World ''\<rparr>),
      uuid4 = (\<lambda>k. ''uuid-'' @ str_nat k),
      elapsed_ms = 2000,
      validation_message = ''Field required''\<rparr>"

definition slow_env :: app_env where
  "slow_env = example_env\<lparr>run_ocr := (\<lambda>url. \<lparr>ends_after = Some 120, outcome = Returns ''late''\<rparr>)\<rparr>"

definition jpeg_upload :: UploadFile where
  "jpeg_upload = \<lparr>content_type = Some ''image/jpeg'', contents = ''JFIF''\<rparr>"

definition pdf_upload :: UploadFile where
  "pdf_upload = \<lparr>content_type = Some ''application/pdf'', contents = ''%PDF-1.7''\<rparr>"

definition oversize_jpeg_upload :: UploadFile where
  "oversize_jpeg_upload =
     \<lparr>content_type = Some ''image/jpeg'', contents = replicate (15 * 1024 * 1024 + 1) CHR 0x00\<rparr>"

definition oversize_pdf_upload :: UploadFile where
  "oversize_pdf_upload =
     \<lparr>content_type = Some ''application/pdf'', contents = replicate (15 * 1024 * 1024 + 1) CHR 0x00\<rparr>"

definition failing_helper_env :: app_env where
  "failing_helper_env = example_env\<lparr>to_data_url := (\<lambda>image_bytes mime_type. Inl Unexpected)\<rparr>"

section \<open>Properties of the file-system model\<close>

lemma get_append: "get t (p @ q) = (case get t p of None \<Rightarrow> None | Some u \<Rightarrow> get u q)"
  by (induction t p rule: get.induct) (auto split: option.splits)

lemma kind_at_Nil [simp]: "kind_at t [] = Some (kind_of t)"
  by (simp add: kind_at_def)

lemma kind_at_File_Cons [simp]: "kind_at File (c # cs) = None"
  by (simp add: kind_at_def)

lemma kind_at_Dir_Cons:
  "kind_at (Dir es) (c # cs) = (case map_of es c of None \<Rightarrow> None | Some u \<Rightarrow> kind_at u cs)"
  by (simp add: kind_at_def split: option.splits)

lemma kind_at_Cons_Some: "kind_at t (c # cs) = Some k \<Longrightarrow> kind_of t = KDir"
  by (cases t) auto

lemma kind_at_File_KDir [simp]: "kind_at File p \<noteq> Some KDir"
  by (cases p) auto

lemma kind_at_append_Some:
  "kind_at t (p @ c # cs) = Some k \<Longrightarrow> kind_at t p = Some KDir"
proof (induction t p rule: get.induct)
  case (1 t)
  then show ?case by (simp add: kind_at_Cons_Some)
next
  case (2 d ds)
  then show ?case by simp
next
  case (3 es d ds)
  then show ?case by (auto simp: kind_at_Dir_Cons split: option.splits)
qed

lemma mkdirs_existing: "kind_at t p = Some KDir \<Longrightarrow> mkdirs t p = Some t"
  by (induction t p rule: mkdirs.induct) (auto simp: kind_at_Dir_Cons update_triv split: option.splits)

lemma mkdirs_kind: "mkdirs t p = Some t' \<Longrightarrow> kind_at t' p = Some KDir"
  by (induction t p arbitrary: t' rule: mkdirs.induct) (auto simp: kind_at_Dir_Cons update_conv' split: option.splits)

lemma touch_mono:
  "touch t m = Some t' \<Longrightarrow> kind_at t p = Some k \<Longrightarrow> kind_at t' p = Some k"
proof (induction t m arbitrary: t' p rule: touch.induct)
  case (1 t)
  then show ?case by simp
next
  case (2 c cs)
  then show ?case by simp
next
  case (3 es c cs)
  show ?case
  proof (cases p)
    case Nil
    with 3 show ?thesis by (auto split: option.splits if_splits)
  next
    case (Cons d ds)
    with 3 show ?thesis
      by (auto simp: kind_at_Dir_Cons update_conv' split: option.splits if_splits)
  qed
qed


lemma entries_iff: "e \<in> set (entries es) \<longleftrightarrow> map_of es (fst e) = Some (snd e)"
  by (cases e) (auto simp: entries_def dest: map_of_SomeD)

lemma set_walk_tree: "set (walk_tree t) = {(r, k). r \<noteq> [] \<and> kind_at t r = Some k}"
proof (induction t rule: walk_tree.induct)
  case 1
  show ?case
  proof -
    have "\<And>r k. kind_at File r = Some k \<Longrightarrow> r = []"
      by (case_tac r) auto
    then show ?thesis by auto
  qed
next
  case (2 es)
  show ?case
  proof (intro set_eqI iffI)
    fix x assume x: "x \<in> set (walk_tree (Dir es))"
    obtain r k where xr: "x = (r, k)" by (cases x)
    from x xr obtain e where e: "e \<in> set (entries es)"
      and rk: "(r, k) = ([fst e], kind_of (snd e)) \<or>
               (\<exists>r'. (r', k) \<in> set (walk_tree (snd e)) \<and> r = fst e # r')"
      by auto
    from e have m: "map_of es (fst e) = Some (snd e)" by (simp add: entries_iff)
    from rk show "x \<in> {(r, k). r \<noteq> [] \<and> kind_at (Dir es) r = Some k}"
    proof
      assume "(r, k) = ([fst e], kind_of (snd e))"
      with m xr show ?thesis by (simp add: kind_at_Dir_Cons)
    next
      assume "\<exists>r'. (r', k) \<in> set (walk_tree (snd e)) \<and> r = fst e # r'"
      then obtain r' where r': "(r', k) \<in> set (walk_tree (snd e))" "r = fst e # r'" by blast
      from r'(1) "2.IH"[OF e] have "kind_at (snd e) r' = Some k" by auto
      with m r'(2) xr show ?thesis by (simp add: kind_at_Dir_Cons)
    qed
  next
    fix x assume x: "x \<in> {(r, k). r \<noteq> [] \<and> kind_at (Dir es) r = Some k}"
    obtain r k where xr: "x = (r, k)" by (cases x)
    from x xr obtain c r' where r: "r = c # r'" and ka: "kind_at (Dir es) (c # r') = Some k"
      by (cases r) auto
    from ka obtain u where m: "map_of es c = Some u" and ku: "kind_at u r' = Some k"
      by (auto simp: kind_at_Dir_Cons split: option.splits)
    from m have e: "(c, u) \<in> set (entries es)" by (simp add: entries_iff)
    show "x \<in> set (walk_tree (Dir es))"
    proof (cases "r' = []")
      case True
      with ku have "k = kind_of u" by simp
      with e True r xr show ?thesis by force
    next
      case False
      with ku "2.IH"[OF e] have "(r', k) \<in> set (walk_tree u)" by auto
      with e r xr show ?thesis by force
    qed
  qed
qed

lemma realpath_mono:
  assumes ext: "\<And>p k. kind_at t p = Some k \<Longrightarrow> kind_at t' p = Some k"
  shows "realpath_from t cur p = Some q \<Longrightarrow> realpath_from t' cur p = Some q"
  by (induction p arbitrary: cur) (auto simp: ext split: if_splits)

lemma stat_mono:
  assumes ext: "\<And>p k. kind_at t p = Some k \<Longrightarrow> kind_at t' p = Some k"
  shows "stat t p = Some k \<Longrightarrow> stat t' p = Some k"
  using realpath_mono[of t t', OF ext] ext
  by (auto simp: stat_def split: option.splits)

lemma rglob_mono:
  assumes ext: "\<And>p k. kind_at t p = Some k \<Longrightarrow> kind_at t' p = Some k"
  shows "set (rglob t d a) \<subseteq> set (rglob t' d a)"
proof (cases "realpath_from t [] d")
  case None
  then show ?thesis by (simp add: rglob_def)
next
  case (Some q)
  have q': "realpath_from t' [] d = Some q"
    using Some realpath_mono[of t t' "[]" d q] ext by blast
  show ?thesis
  proof (cases "get t q")
    case None
    with Some show ?thesis by (simp add: rglob_def)
  next
    case sub: (Some sub)
    then have "kind_at t q = Some (kind_of sub)" by (simp add: kind_at_def)
    then have "kind_at t' q = Some (kind_of sub)" by (rule ext)
    then obtain sub' where sub': "get t' q = Some sub'" by (auto simp: kind_at_def)
    have "set (walk_tree sub) \<subseteq> set (walk_tree sub')"
    proof
      fix x assume "x \<in> set (walk_tree sub)"
      then obtain r k where x: "x = (r, k)" "r \<noteq> []" "kind_at sub r = Some k"
        by (auto simp: set_walk_tree)
      from x(3) sub have "kind_at t (q @ r) = Some k" by (simp add: kind_at_def get_append)
      then have "kind_at t' (q @ r) = Some k" by (rule ext)
      with sub' have "kind_at sub' r = Some k" by (simp add: kind_at_def get_append)
      with x show "x \<in> set (walk_tree sub')" by (simp add: set_walk_tree)
    qed
    with Some q' sub sub' show ?thesis by (auto simp: rglob_def)
  qed
qed


lemma collapse_aux_no_dotdot:
  "''..'' \<notin> set acc \<Longrightarrow>
   ''..'' \<notin> set (foldl (\<lambda>acc c. if c = ''..'' then butlast acc else acc @ [c]) acc p)"
  by (induction p arbitrary: acc) (auto dest: in_set_butlastD)

lemma collapse_no_dotdot: "''..'' \<notin> set (collapse p)"
  unfolding collapse_def by (rule collapse_aux_no_dotdot) simp

lemma collapse_aux_plain:
  "''..'' \<notin> set p \<Longrightarrow>
   foldl (\<lambda>acc c. if c = ''..'' then butlast acc else acc @ [c]) acc p = acc @ p"
  by (induction p arbitrary: acc) auto

lemma collapse_plain: "''..'' \<notin> set p \<Longrightarrow> collapse p = p"
  unfolding collapse_def by (simp add: collapse_aux_plain)

lemma collapse_idem: "collapse (collapse p) = collapse p"
  by (simp add: collapse_plain collapse_no_dotdot)

lemma realpath_plain:
  "''..'' \<notin> set p \<Longrightarrow> realpath_from t cur p = Some q \<Longrightarrow> q = cur @ p"
proof (induction p arbitrary: cur)
  case Nil
  then show ?case by simp
next
  case (Cons c cs)
  from Cons.prems have "realpath_from t (cur @ [c]) cs = Some q"
    by (auto split: if_splits)
  with Cons.IH[of "cur @ [c]"] Cons.prems(1) show ?case by simp
qed

lemma realpath_append:
  "realpath_from t cur (xs @ ys) =
     (case realpath_from t cur xs of None \<Rightarrow> None | Some m \<Rightarrow> realpath_from t m ys)"
  by (induction xs arbitrary: cur) auto

lemma is_dir_prefix:
  assumes plain: "''..'' \<notin> set base" and dir: "is_dir t (base @ rest)"
  shows "kind_at t base = Some KDir"
proof -
  from dir obtain q where q: "realpath_from t [] (base @ rest) = Some q" "kind_at t q = Some KDir"
    by (auto simp: is_dir_def stat_def split: option.splits)
  from q(1) obtain m where m: "realpath_from t [] base = Some m" "realpath_from t m rest = Some q"
    by (auto simp: realpath_append split: option.splits)
  from m(1) plain have mr: "m = base" using realpath_plain[of base t "[]" m] by simp
  show ?thesis
  proof (cases rest)
    case Nil
    with m(2) mr q(2) show ?thesis by simp
  next
    case (Cons c cs)
    with m(2) mr show ?thesis by (auto split: if_splits)
  qed
qed

lemma replace_slash_no_slash: "CHR ''/'' \<notin> set (replace_slash s)"
  by (induction s) (auto simp: replace_slash_def)

lemma resolve_repo_dir_eq:
  "resolve_repo_dir s w = resolve_store_dir s w @ parts (replace_slash (model_repo_id s))"
proof -
  have "\<not> (replace_slash (model_repo_id s) \<noteq> [] \<and> hd (replace_slash (model_repo_id s)) = CHR ''/'')"
    using replace_slash_no_slash[of "model_repo_id s"] hd_in_set by metis
  then show ?thesis unfolding resolve_repo_dir_def path_div_def Let_def by auto
qed

lemma has_expected_True_is_dir:
  "has_expected_artifacts w d fn = Inr True \<Longrightarrow> is_dir (fs w) d"
  by (auto simp: has_expected_artifacts_def split: if_splits)

lemma find_model_file_mono:
  assumes ext: "\<And>p k. kind_at (fs w) p = Some k \<Longrightarrow> kind_at (fs w') p = Some k"
    and glob: "glob_pattern w' = glob_pattern w"
    and found: "find_model_file w d pat = Inr (Some x)"
  shows "\<exists>y. find_model_file w' d pat = Inr (Some y)"
proof -
  have st: "\<And>p k. stat (fs w) p = Some k \<Longrightarrow> stat (fs w') p = Some k"
    using stat_mono[of "fs w" "fs w'"] ext by blast
  from found have dir: "is_dir (fs w) d" and ne: "strip pat \<noteq> []"
    by (auto simp: find_model_file_def Let_def split: if_splits)
  from dir st have dir': "is_dir (fs w') d" "exists_path (fs w') d"
    by (auto simp: is_dir_def exists_path_def)
  let ?direct = "collapse (path_div d (strip pat))"
  let ?plain = "\<not> list_ex (\<lambda>c. c \<in> set (strip pat)) wildcard_chars"
  show ?thesis
  proof (cases "?plain \<and> exists_path (fs w') ?direct \<and> is_file (fs w') ?direct")
    case True
    with dir' ne show ?thesis by (simp add: find_model_file_def Let_def)
  next
    case False
    then have nd: "\<not> (?plain \<and> exists_path (fs w) ?direct \<and> is_file (fs w) ?direct)"
      using st by (auto simp: is_file_def exists_path_def)
    from found nd dir ne obtain a where a: "glob_pattern w (strip pat) = Some a"
      and m: "sort (map fst (filter (\<lambda>r. snd r = KFile) (rglob (fs w) d a))) \<noteq> []"
      by (auto simp: find_model_file_def Let_def is_dir_def exists_path_def
               split: if_splits option.splits)
    from m obtain r where r: "r \<in> set (rglob (fs w) d a)" "snd r = KFile"
      by (auto simp: filter_empty_conv simp flip: set_empty)
    with rglob_mono[of "fs w" "fs w'" d a] ext have "r \<in> set (rglob (fs w') d a)" by blast
    with r(2) have "filter (\<lambda>r. snd r = KFile) (rglob (fs w') d a) \<noteq> []"
      by (auto simp: filter_empty_conv)
    then have "sort (map fst (filter (\<lambda>r. snd r = KFile) (rglob (fs w') d a))) \<noteq> []"
      by (simp flip: set_empty)
    with False dir' ne a glob show ?thesis
      by (simp add: find_model_file_def Let_def)
  qed
qed

lemma has_expected_mono:
  assumes ext: "\<And>p k. kind_at (fs w) p = Some k \<Longrightarrow> kind_at (fs w') p = Some k"
    and glob: "glob_pattern w' = glob_pattern w"
    and has: "has_expected_artifacts w d fn = Inr True"
  shows "has_expected_artifacts w' d fn = Inr True"
proof -
  have st: "\<And>p k. stat (fs w) p = Some k \<Longrightarrow> stat (fs w') p = Some k"
    using stat_mono[of "fs w" "fs w'"] ext by blast
  from has have dir: "is_dir (fs w) d" by (rule has_expected_True_is_dir)
  with st have dir': "is_dir (fs w') d" "exists_path (fs w') d"
    by (auto simp: is_dir_def exists_path_def)
  show ?thesis
  proof (cases "truthy fn")
    case True
    with has dir obtain x where "find_model_file w d (the fn) = Inr (Some x)"
      by (auto simp: has_expected_artifacts_def is_dir_def exists_path_def split: sum.splits)
    from find_model_file_mono[OF ext glob this]
    obtain y where "find_model_file w' d (the fn) = Inr (Some y)" by blast
    with True dir' show ?thesis by (simp add: has_expected_artifacts_def)
  next
    case False
    with has dir obtain r where r: "r \<in> set (rglob (fs w) d (\<lambda>rel. True))" "snd r = KFile"
      by (auto simp: has_expected_artifacts_def is_dir_def exists_path_def list_ex_iff)
    with rglob_mono[of "fs w" "fs w'" d "\<lambda>rel. True"] ext
    have "r \<in> set (rglob (fs w') d (\<lambda>rel. True))" by blast
    with r(2) False dir' show ?thesis
      by (auto simp: has_expected_artifacts_def list_ex_iff)
  qed
qed


section \<open>Properties of the model store\<close>

lemma resolve_store_dir_cong: "absolute w' = absolute w \<Longrightarrow> resolve_store_dir s w' = resolve_store_dir s w"
  by (simp add: resolve_store_dir_def)

lemma resolve_repo_dir_cong: "absolute w' = absolute w \<Longrightarrow> resolve_repo_dir s w' = resolve_repo_dir s w"
  by (simp add: resolve_repo_dir_def resolve_store_dir_def)

lemma marker_cases:
  "write_bootstrap_marker d w = w\<lparr>logged := logged w @ [Warning ''Failed to update model_store bootstrap marker'']\<rparr>
   \<or> (\<exists>t. marker_writable w \<and> touch (fs w) (path_div d ''.model_store_ready'') = Some t
          \<and> write_bootstrap_marker d w = w\<lparr>fs := t\<rparr>)"
  by (cases "marker_writable w"; cases "touch (fs w) (path_div d ''.model_store_ready'')")
     (simp_all add: write_bootstrap_marker_def Let_def)

lemma marker_fields:
  "absolute (write_bootstrap_marker d w) = absolute w"
  "glob_pattern (write_bootstrap_marker d w) = glob_pattern w"
  "fetches (write_bootstrap_marker d w) = fetches w"
  "hub_installed (write_bootstrap_marker d w) = hub_installed w"
  "marker_writable (write_bootstrap_marker d w) = marker_writable w"
  using marker_cases[of d w] by auto

lemma marker_ext:
  "kind_at (fs w) p = Some k \<Longrightarrow> kind_at (fs (write_bootstrap_marker d w)) p = Some k"
  using marker_cases[of d w] by (auto intro: touch_mono)


lemma download_cases:
  fixes s d w
  defines "repo \<equiv> resolve_repo_dir s w"
  defines "kw \<equiv> filter (\<lambda>kv. fst kv \<in> set (snapshot_params w) \<and> snd kv \<noteq> VNone) (snapshot_kwargs s repo)"
  obtains
    (no_hub) "\<not> hub_installed w"
      "download_model_snapshot s d w = (Inl (RuntimeError Hub_client_required), w)"
  | (no_store) "hub_installed w" "mkdir_p (fs w) d = None"
      "download_model_snapshot s d w = (Inl OSError, w)"
  | (no_repo) t1 where "hub_installed w" "mkdir_p (fs w) d = Some t1" "mkdir_p t1 repo = None"
      "download_model_snapshot s d w = (Inl OSError, w\<lparr>fs := t1\<rparr>)"
  | (failed) t1 t2 where "hub_installed w" "mkdir_p (fs w) d = Some t1" "mkdir_p t1 repo = Some t2"
      "registry w kw t2 = None"
      "download_model_snapshot s d w =
         (Inl (RuntimeError (Download_failed (model_repo_id s) repo)),
          w\<lparr>fs := t2, logged := logged w @ [Info ''Downloading model snapshot into model_store''],
            fetches := fetches w @ [kw]\<rparr>)"
  | (fetched) t1 t2 t3 where "hub_installed w" "mkdir_p (fs w) d = Some t1" "mkdir_p t1 repo = Some t2"
      "registry w kw t2 = Some t3"
      "download_model_snapshot s d w =
         (Inr (),
          w\<lparr>fs := t3,
            logged := logged w @ [Info ''Downloading model snapshot into model_store'',
                                 Info ''Model snapshot ready''],
            fetches := fetches w @ [kw]\<rparr>)"
proof (cases "hub_installed w")
  case False
  then show ?thesis using no_hub by (simp add: download_model_snapshot_def)
next
  case hub: True
  show ?thesis
  proof (cases "mkdir_p (fs w) d")
    case None
    with hub show ?thesis using no_store by (simp add: download_model_snapshot_def)
  next
    case t1: (Some t1)
    show ?thesis
    proof (cases "mkdir_p t1 repo")
      case None
      with hub t1 show ?thesis using no_repo[of t1]
        by (simp add: download_model_snapshot_def repo_def)
    next
      case t2: (Some t2)
      show ?thesis
      proof (cases "registry w kw t2")
        case None
        with hub t1 t2 show ?thesis using failed[of t1 t2]
          by (simp add: download_model_snapshot_def repo_def kw_def Let_def)
      next
        case (Some t3)
        with hub t1 t2 show ?thesis using fetched[of t1 t2 t3]
          by (simp add: download_model_snapshot_def repo_def kw_def Let_def)
      qed
    qed
  qed
qed



lemma ensure_skip:
  "\<not> (require_local_model_store s \<or> auto_download_model_store s \<or> model_force_download s)
   \<Longrightarrow> ensure_model_store s w = (Inr None, w)"
  unfolding ensure_model_store_def Let_def by simp

lemma ensure_no_store:
  "require_local_model_store s \<or> auto_download_model_store s \<or> model_force_download s
   \<Longrightarrow> mkdir_p (fs w) (resolve_store_dir s w) = None
   \<Longrightarrow> ensure_model_store s w = (Inl OSError, w)"
  unfolding ensure_model_store_def Let_def by simp


lemma ensure_cases:
  fixes s w
  defines "d \<equiv> resolve_store_dir s w"
  defines "repo \<equiv> resolve_repo_dir s w"
  defines "fn \<equiv> model_filename s"
  defines "boot \<equiv> require_local_model_store s \<or> auto_download_model_store s \<or> model_force_download s"
  obtains
    (skip) "\<not> boot" "ensure_model_store s w = (Inr None, w)"
  | (no_store) "boot" "mkdir_p (fs w) d = None" "ensure_model_store s w = (Inl OSError, w)"
  | (probe_raised) t1 e where "boot" "mkdir_p (fs w) d = Some t1"
      "has_expected_artifacts (w\<lparr>fs := t1\<rparr>) repo fn = Inl e"
      "ensure_model_store s w = (Inl e, w\<lparr>fs := t1\<rparr>)"
  | (cache_hit) t1 where "boot" "mkdir_p (fs w) d = Some t1"
      "has_expected_artifacts (w\<lparr>fs := t1\<rparr>) repo fn = Inr True" "\<not> model_force_download s"
      "ensure_model_store s w = (Inr (Some d), write_bootstrap_marker d (w\<lparr>fs := t1\<rparr>))"
  | (missing) t1 where "boot" "mkdir_p (fs w) d = Some t1"
      "has_expected_artifacts (w\<lparr>fs := t1\<rparr>) repo fn = Inr False"
      "\<not> model_force_download s" "\<not> auto_download_model_store s"
      "ensure_model_store s w = (Inl (RuntimeError (Artifacts_required_but_missing repo)), w\<lparr>fs := t1\<rparr>)"
  | (download_raised) t1 b e w2 where "boot" "mkdir_p (fs w) d = Some t1"
      "has_expected_artifacts (w\<lparr>fs := t1\<rparr>) repo fn = Inr b" "\<not> (b \<and> \<not> model_force_download s)"
      "model_force_download s \<or> auto_download_model_store s"
      "download_model_snapshot s d (w\<lparr>fs := t1\<rparr>) = (Inl e, w2)"
      "ensure_model_store s w = (Inl e, w2)"
  | (probe_again_raised) t1 b u e w2 where "boot" "mkdir_p (fs w) d = Some t1"
      "has_expected_artifacts (w\<lparr>fs := t1\<rparr>) repo fn = Inr b" "\<not> (b \<and> \<not> model_force_download s)"
      "model_force_download s \<or> auto_download_model_store s"
      "download_model_snapshot s d (w\<lparr>fs := t1\<rparr>) = (Inr u, w2)"
      "has_expected_artifacts w2 repo fn = Inl e"
      "ensure_model_store s w = (Inl e, w2)"
  | (still_missing) t1 b u w2 where "boot" "mkdir_p (fs w) d = Some t1"
      "has_expected_artifacts (w\<lparr>fs := t1\<rparr>) repo fn = Inr b" "\<not> (b \<and> \<not> model_force_download s)"
      "model_force_download s \<or> auto_download_model_store s"
      "download_model_snapshot s d (w\<lparr>fs := t1\<rparr>) = (Inr u, w2)"
      "has_expected_artifacts w2 repo fn = Inr False"
      "ensure_model_store s w = (Inl (RuntimeError (Bootstrap_finished_without_artifacts repo)), w2)"
  | (fetched) t1 b u w2 where "boot" "mkdir_p (fs w) d = Some t1"
      "has_expected_artifacts (w\<lparr>fs := t1\<rparr>) repo fn = Inr b" "\<not> (b \<and> \<not> model_force_download s)"
      "model_force_download s \<or> auto_download_model_store s"
      "download_model_snapshot s d (w\<lparr>fs := t1\<rparr>) = (Inr u, w2)"
      "has_expected_artifacts w2 repo fn = Inr True"
      "ensure_model_store s w = (Inr (Some d), write_bootstrap_marker d w2)"
proof (cases boot)
  case False
  then have "ensure_model_store s w = (Inr None, w)"
    by (simp add: ensure_model_store_def Let_def boot_def)
  with False show ?thesis by (rule skip)
next
  case boot: True
  then have boot': "require_local_model_store s \<or> auto_download_model_store s \<or> model_force_download s"
    by (simp add: boot_def)
  show ?thesis
  proof (cases "mkdir_p (fs w) d")
    case None
    with boot' have "ensure_model_store s w = (Inl OSError, w)"
      by (simp add: ensure_model_store_def Let_def d_def)
    with boot None show ?thesis by (rule no_store)
  next
    case t1: (Some t1)
    have rr: "resolve_repo_dir s (w\<lparr>fs := t1\<rparr>) = repo"
      by (simp add: repo_def resolve_repo_dir_def resolve_store_dir_def)
    show ?thesis
    proof (cases "has_expected_artifacts (w\<lparr>fs := t1\<rparr>) repo fn")
      case (Inl e)
      with boot' t1 have "ensure_model_store s w = (Inl e, w\<lparr>fs := t1\<rparr>)"
        by (simp add: ensure_model_store_def Let_def d_def fn_def rr)
      with boot t1 Inl show ?thesis by (rule probe_raised)
    next
      case b: (Inr b)
      show ?thesis
      proof (cases "b \<and> \<not> model_force_download s")
        case True
        with boot' t1 b have "ensure_model_store s w =
            (Inr (Some d), write_bootstrap_marker d (w\<lparr>fs := t1\<rparr>))"
          by (simp add: ensure_model_store_def Let_def d_def fn_def rr)
        moreover from True b
        have "has_expected_artifacts (w\<lparr>fs := t1\<rparr>) repo fn = Inr True" by simp
        moreover from True have "\<not> model_force_download s" by simp
        ultimately show ?thesis using boot t1 cache_hit[of t1] by blast
      next
        case nb: False
        show ?thesis
        proof (cases "model_force_download s \<or> auto_download_model_store s")
          case False
          with boot' have req: "require_local_model_store s" by simp
          from False nb have bf: "b = False" by simp
          from False nb boot' t1 b req bf have "ensure_model_store s w =
              (Inl (RuntimeError (Artifacts_required_but_missing repo)), w\<lparr>fs := t1\<rparr>)"
            by (auto simp add: ensure_model_store_def Let_def d_def fn_def rr)
          moreover from b bf
          have "has_expected_artifacts (w\<lparr>fs := t1\<rparr>) repo fn = Inr False" by simp
          ultimately show ?thesis using boot t1 False missing[of t1] by blast
        next
          case dl: True
          obtain r w2 where r: "download_model_snapshot s d (w\<lparr>fs := t1\<rparr>) = (r, w2)"
            by (cases "download_model_snapshot s d (w\<lparr>fs := t1\<rparr>)")
          show ?thesis
          proof (cases r)
            case (Inl e)
            with dl nb boot' t1 b r have "ensure_model_store s w = (Inl e, w2)"
              by (auto simp add: ensure_model_store_def Let_def d_def fn_def rr)
            moreover from r Inl
            have "download_model_snapshot s d (w\<lparr>fs := t1\<rparr>) = (Inl e, w2)" by simp
            ultimately show ?thesis using boot t1 b nb dl download_raised[of t1 b e w2] by blast
          next
            case u: (Inr u)
            from r u have r': "download_model_snapshot s d (w\<lparr>fs := t1\<rparr>) = (Inr u, w2)"
              by simp
            show ?thesis
            proof (cases "has_expected_artifacts w2 repo fn")
              case (Inl e)
              with dl nb boot' t1 b r' have "ensure_model_store s w = (Inl e, w2)"
                by (auto simp add: ensure_model_store_def Let_def d_def fn_def rr)
              then show ?thesis
                using boot t1 b nb dl r' Inl probe_again_raised[of t1 b u w2 e] by blast
            next
              case (Inr b2)
              show ?thesis
              proof (cases b2)
                case True
                with Inr dl nb boot' t1 b r' have "ensure_model_store s w =
                    (Inr (Some d), write_bootstrap_marker d w2)"
                  by (auto simp add: ensure_model_store_def Let_def d_def fn_def rr)
                moreover from Inr True have "has_expected_artifacts w2 repo fn = Inr True"
                  by simp
                ultimately show ?thesis
                  using boot t1 b nb dl r' fetched[of t1 b u w2] by blast
              next
                case False
                with Inr dl nb boot' t1 b r' have "ensure_model_store s w =
                    (Inl (RuntimeError (Bootstrap_finished_without_artifacts repo)), w2)"
                  by (auto simp add: ensure_model_store_def Let_def d_def fn_def rr)
                moreover from Inr False have "has_expected_artifacts w2 repo fn = Inr False"
                  by simp
                ultimately show ?thesis
                  using boot t1 b nb dl r' still_missing[of t1 b u w2] by blast
              qed
            qed
          qed
        qed
      qed
    qed
  qed
qed


lemma mkdirs_idem: "mkdirs t p = Some t' \<Longrightarrow> mkdirs t' p = Some t'"
  by (rule mkdirs_existing) (rule mkdirs_kind)

lemma mkdir_p_idem: "mkdir_p t p = Some t' \<Longrightarrow> mkdir_p t' p = Some t'"
  unfolding mkdir_p_def by (rule mkdirs_idem)

lemma has_expected_cong:
  assumes a: "fs w' = fs w" and b: "glob_pattern w' = glob_pattern w"
  shows "has_expected_artifacts w' d fn = has_expected_artifacts w d fn"
  unfolding has_expected_artifacts_def find_model_file_def a b by (rule refl)

lemma download_marker_writable:
  "download_model_snapshot s d (w\<lparr>marker_writable := b\<rparr>) =
     (fst (download_model_snapshot s d w), (snd (download_model_snapshot s d w))\<lparr>marker_writable := b\<rparr>)"
  by (simp add: download_model_snapshot_def Let_def resolve_repo_dir_def resolve_store_dir_def
           split: option.splits)

text \<open>C10\<close>


lemma has_expected_mw:
  "has_expected_artifacts (w\<lparr>marker_writable := b\<rparr>) d fn = has_expected_artifacts w d fn"
  by (rule has_expected_cong) simp_all

lemma marker_result_free:
  "fst (ensure_model_store s (w\<lparr>marker_writable := b\<rparr>)) = fst (ensure_model_store s w)"
proof -
  define d where "d = resolve_store_dir s w"
  define repo where "repo = resolve_repo_dir s w"
  define fn where "fn = model_filename s"
  define force where "force = model_force_download s"
  note folds = d_def[symmetric] fn_def[symmetric] force_def[symmetric]
  have d': "resolve_store_dir s (w\<lparr>marker_writable := b\<rparr>) = d"
    by (simp add: d_def resolve_store_dir_def)
  have r1: "\<And>t. resolve_repo_dir s (w\<lparr>fs := t\<rparr>) = repo"
    by (simp add: repo_def resolve_repo_dir_def resolve_store_dir_def)
  have r2: "\<And>t. resolve_repo_dir s (w\<lparr>marker_writable := b, fs := t\<rparr>) = repo"
    by (simp add: repo_def resolve_repo_dir_def resolve_store_dir_def)
  have r3: "\<And>t. resolve_repo_dir s (w\<lparr>fs := t, marker_writable := b\<rparr>) = repo"
    by (simp add: repo_def resolve_repo_dir_def resolve_store_dir_def)
  have h2: "\<And>t. has_expected_artifacts (w\<lparr>marker_writable := b, fs := t\<rparr>) repo fn
                 = has_expected_artifacts (w\<lparr>fs := t\<rparr>) repo fn"
    by (rule has_expected_cong) simp_all
  have h3: "\<And>t. has_expected_artifacts (w\<lparr>fs := t, marker_writable := b\<rparr>) repo fn
                 = has_expected_artifacts (w\<lparr>fs := t\<rparr>) repo fn"
    by (rule has_expected_cong) simp_all
  have sw: "\<And>t. w\<lparr>marker_writable := b, fs := t\<rparr> = w\<lparr>fs := t, marker_writable := b\<rparr>"
    by (cases w) simp
  have dl3: "\<And>t. download_model_snapshot s d (w\<lparr>fs := t, marker_writable := b\<rparr>)
                 = (fst (download_model_snapshot s d (w\<lparr>fs := t\<rparr>)),
                    (snd (download_model_snapshot s d (w\<lparr>fs := t\<rparr>)))\<lparr>marker_writable := b\<rparr>)"
    by (rule download_marker_writable)
  have dl2: "\<And>t. download_model_snapshot s d (w\<lparr>marker_writable := b, fs := t\<rparr>)
                 = (fst (download_model_snapshot s d (w\<lparr>fs := t\<rparr>)),
                    (snd (download_model_snapshot s d (w\<lparr>fs := t\<rparr>)))\<lparr>marker_writable := b\<rparr>)"
    unfolding sw by (rule dl3)
  note eqs = d' r1 r2 r3 h2 h3
  show ?thesis
  proof (cases "require_local_model_store s \<or> auto_download_model_store s \<or> force")
    case False
    then show ?thesis by (simp add: ensure_model_store_def force_def)
  next
    case boot: True
    show ?thesis
    proof (cases "mkdir_p (fs w) d")
      case None
      then show ?thesis using boot
        by (simp add: ensure_model_store_def Let_def folds eqs)
    next
      case t1: (Some t1)
      show ?thesis
      proof (cases "has_expected_artifacts (w\<lparr>fs := t1\<rparr>) repo fn")
        case (Inl e)
        then show ?thesis using boot t1
          by (simp add: ensure_model_store_def Let_def folds eqs)
      next
        case h: (Inr h)
        show ?thesis
        proof (cases "h \<and> \<not> force")
          case True
          then show ?thesis using boot t1 h
            by (simp add: ensure_model_store_def Let_def folds eqs)
        next
          case nh: False
          show ?thesis
          proof (cases "force \<or> auto_download_model_store s")
            case False
            then show ?thesis using boot t1 h nh
              by (auto simp add: ensure_model_store_def Let_def folds eqs)
          next
            case dl: True
            obtain r w2 where f: "download_model_snapshot s d (w\<lparr>fs := t1\<rparr>) = (r, w2)"
              by (cases "download_model_snapshot s d (w\<lparr>fs := t1\<rparr>)") auto
            have f2: "download_model_snapshot s d (w\<lparr>marker_writable := b, fs := t1\<rparr>)
                        = (r, w2\<lparr>marker_writable := b\<rparr>)"
              by (simp add: dl2 f)
            have f3: "download_model_snapshot s d (w\<lparr>fs := t1, marker_writable := b\<rparr>)
                        = (r, w2\<lparr>marker_writable := b\<rparr>)"
              by (simp add: dl3 f)
            show ?thesis
            proof (cases r)
              case (Inl e)
              then show ?thesis using boot t1 h nh dl f f2 f3
                by (auto simp add: ensure_model_store_def Let_def folds eqs)
            next
              case u: (Inr u)
              show ?thesis
              proof (cases "has_expected_artifacts w2 repo fn")
                case (Inl e)
                then show ?thesis using boot t1 h nh dl f f2 f3 u
                  by (auto simp add: ensure_model_store_def Let_def folds eqs has_expected_mw)
              next
                case (Inr hn)
                then show ?thesis using boot t1 h nh dl f f2 f3 u
                  by (auto simp add: ensure_model_store_def Let_def folds eqs has_expected_mw)
              qed
            qed
          qed
        qed
      qed
    qed
  qed
qed

lemma download_fields:
  assumes "download_model_snapshot s d w = (r, w')"
  shows "absolute w' = absolute w" "glob_pattern w' = glob_pattern w"
    "length (fetches w') \<le> Suc (length (fetches w))"
  using assms by (cases s d w rule: download_cases; auto)+

lemma ensure_again:
  assumes boot: "require_local_model_store s \<or> auto_download_model_store s \<or> model_force_download s"
    and nf: "\<not> model_force_download s"
    and has: "has_expected_artifacts w0 (resolve_repo_dir s w0) (model_filename s) = Inr True"
    and w1: "w1 = write_bootstrap_marker (resolve_store_dir s w0) w0"
  shows "ensure_model_store s w1 =
           (Inr (Some (resolve_store_dir s w0)), write_bootstrap_marker (resolve_store_dir s w0) w1)"
proof -
  define d where "d = resolve_store_dir s w0"
  define repo where "repo = resolve_repo_dir s w0"
  have abs: "absolute w1 = absolute w0"
    by (simp add: w1 marker_fields)
  have d1: "resolve_store_dir s w1 = d"
    by (simp add: d_def resolve_store_dir_def abs)
  have plain: "''..'' \<notin> set d"
    by (simp add: d_def resolve_store_dir_def collapse_no_dotdot)
  have repo_eq: "repo = d @ parts (replace_slash (model_repo_id s))"
    by (simp add: repo_def d_def resolve_repo_dir_eq)
  have "is_dir (fs w0) repo"
    using has by (simp add: repo_def has_expected_True_is_dir)
  then have "kind_at (fs w0) d = Some KDir"
    unfolding repo_eq using plain by (rule is_dir_prefix[rotated])
  then have "kind_at (fs w1) d = Some KDir"
    unfolding w1 by (rule marker_ext)
  then have mk: "mkdir_p (fs w1) d = Some (fs w1)"
    by (simp add: mkdir_p_def collapse_plain[OF plain] mkdirs_existing)
  have same: "w1\<lparr>fs := fs w1\<rparr> = w1"
    by simp
  have r1: "resolve_repo_dir s w1 = repo"
    by (simp add: repo_def resolve_repo_dir_def resolve_store_dir_def abs)
  have has1: "has_expected_artifacts w1 repo (model_filename s) = Inr True"
  proof (rule has_expected_mono[of w0 w1])
    show "\<And>p k. kind_at (fs w0) p = Some k \<Longrightarrow> kind_at (fs w1) p = Some k"
      unfolding w1 by (rule marker_ext)
    show "glob_pattern w1 = glob_pattern w0"
      by (simp add: w1 marker_fields)
    show "has_expected_artifacts w0 repo (model_filename s) = Inr True"
      using has by (simp add: repo_def)
  qed
  have "ensure_model_store s w1 = (Inr (Some d), write_bootstrap_marker d w1)"
    using boot nf by (simp add: ensure_model_store_def Let_def d1 mk same r1 has1)
  then show ?thesis by (simp add: d_def)
qed

lemma realpath_collapse:
  "realpath_from t cur p = Some q \<Longrightarrow>
   q = foldl (\<lambda>acc c. if c = ''..'' then butlast acc else acc @ [c]) cur p"
  by (induction p arbitrary: cur) (auto split: if_splits)

lemma is_dir_mkdir_p: "is_dir t p \<Longrightarrow> mkdir_p t p = Some t"
  by (auto simp add: is_dir_def stat_def mkdir_p_def collapse_def split: option.splits
           dest!: realpath_collapse intro: mkdirs_existing)

lemma has_expected_store_exists:
  assumes "has_expected_artifacts w (resolve_repo_dir s w) fn = Inr True"
  shows "mkdir_p (fs w) (resolve_store_dir s w) = Some (fs w)"
proof -
  have plain: "''..'' \<notin> set (resolve_store_dir s w)"
    by (simp add: resolve_store_dir_def collapse_no_dotdot)
  have "is_dir (fs w) (resolve_store_dir s w @ parts (replace_slash (model_repo_id s)))"
    using assms has_expected_True_is_dir by (simp add: resolve_repo_dir_eq)
  with plain have "kind_at (fs w) (resolve_store_dir s w) = Some KDir"
    by (rule is_dir_prefix)
  then show ?thesis
    by (simp add: mkdir_p_def collapse_plain[OF plain] mkdirs_existing)
qed

lemma download_fetches:
  assumes "hub_installed w" and "mkdir_p (fs w) d = Some (fs w)"
    and "is_dir (fs w) (resolve_repo_dir s w)"
  shows "fetches (snd (download_model_snapshot s d w)) =
           fetches w @ [filter (\<lambda>kv. fst kv \<in> set (snapshot_params w) \<and> snd kv \<noteq> VNone)
                          (snapshot_kwargs s (resolve_repo_dir s w))]"
  using assms is_dir_mkdir_p[OF assms(3)]
  by (cases s d w rule: download_cases) auto

lemma download_fetches_general:
  assumes "hub_installed w" and "mkdir_p (fs w) d = Some t1"
    and "mkdir_p t1 (resolve_repo_dir s w) = Some t2"
  shows "fetches (snd (download_model_snapshot s d w)) =
           fetches w @ [filter (\<lambda>kv. fst kv \<in> set (snapshot_params w) \<and> snd kv \<noteq> VNone)
                          (snapshot_kwargs s (resolve_repo_dir s w))]"
  using assms by (cases s d w rule: download_cases) auto

subsection \<open>The example settings and world, evaluated\<close>

lemma download_settings_fields:
  "auto_download_model_store download_settings"
  "model_filename download_settings = None"
  "\<not> model_force_download download_settings"
  by (simp_all add: download_settings_def example_settings_def)

lemma example_store_dir:
  "resolve_store_dir download_settings example_world = [''srv'', ''ocr'', ''model_store'']"
  by code_simp

lemma example_repo_dir:
  "resolve_repo_dir download_settings example_world =
     [''srv'', ''ocr'', ''model_store'', ''allenai--olmOCR-2-7B-1025-FP8'']"
  by code_simp

lemma example_mkdir_store:
  "mkdir_p (fs example_world) [''srv'', ''ocr'', ''model_store''] = Some example_store_tree"
  by code_simp

lemma example_probe_empty:
  "has_expected_artifacts (example_world\<lparr>fs := example_store_tree\<rparr>)
     [''srv'', ''ocr'', ''model_store'', ''allenai--olmOCR-2-7B-1025-FP8''] None = Inr False"
  by code_simp

lemma example_fetch_returns:
  "fst (download_model_snapshot download_settings [''srv'', ''ocr'', ''model_store'']
          (example_world\<lparr>fs := example_store_tree\<rparr>)) = Inr ()"
  by code_simp

lemma example_probe_after_fetch:
  "has_expected_artifacts
     (snd (download_model_snapshot download_settings [''srv'', ''ocr'', ''model_store'']
             (example_world\<lparr>fs := example_store_tree\<rparr>)))
     [''srv'', ''ocr'', ''model_store'', ''allenai--olmOCR-2-7B-1025-FP8''] None = Inr False"
  by code_simp

lemma example_fetch_log:
  "map (map fst)
     (fetches (snd (download_model_snapshot download_settings [''srv'', ''ocr'', ''model_store'']
                      (example_world\<lparr>fs := example_store_tree\<rparr>))))
     = [[''repo_id'', ''local_dir'', ''force_download'']]"
  by code_simp

lemma cached_result:
  "fst (ensure_model_store example_settings cached_world) = Inr (Some [''srv'', ''ocr'', ''model_store''])"
  by code_simp

lemma cached_parts: "parts (replace_slash (model_repo_id example_settings)) = [''allenai--olmOCR-2-7B-1025-FP8'']"
  by code_simp

lemma cached_result_writable:
  "fst (ensure_model_store example_settings (cached_world\<lparr>marker_writable := True\<rparr>))
     = Inr (Some [''srv'', ''ocr'', ''model_store''])"
  by code_simp

lemma cached_log_unwritable:
  "logged (snd (ensure_model_store example_settings (cached_world\<lparr>marker_writable := False\<rparr>)))
     = [Warning ''Failed to update model_store bootstrap marker'']"
  by code_simp

lemma first_call: "fst (ensure_model_store download_settings delivering_world) = Inr (Some [''srv'', ''ocr'', ''model_store''])"
  by code_simp

lemma first_fetches: "length (fetches (snd (ensure_model_store download_settings delivering_world))) = 1"
  by code_simp

lemma force_example_fields:
  "model_force_download force_settings" "hub_installed cached_world" "fetches cached_world = []"
  by code_simp+

lemma force_example_probe:
  "has_expected_artifacts cached_world (resolve_repo_dir force_settings cached_world)
     (model_filename force_settings) = Inr True"
  by code_simp

lemma force_example_kwargs:
  "filter (\<lambda>kv. fst kv \<in> set (snapshot_params cached_world) \<and> snd kv \<noteq> VNone)
     (snapshot_kwargs force_settings (resolve_repo_dir force_settings cached_world))
   = [(''repo_id'', VStr ''allenai/olmOCR-2-7B-1025-FP8''),
      (''local_dir'', VStr ''/srv/ocr/model_store/allenai--olmOCR-2-7B-1025-FP8''),
      (''force_download'', VBool True)]"
  by code_simp


lemma force_example_store:
  "mkdir_p (fs cached_world) (resolve_store_dir force_settings cached_world) = Some (fs cached_world)"
  "has_expected_artifacts (cached_world\<lparr>fs := fs cached_world\<rparr>)
     (resolve_repo_dir force_settings cached_world) (model_filename force_settings) = Inr True"
  "mkdir_p (fs cached_world) (resolve_repo_dir force_settings cached_world) = Some (fs cached_world)"
  by code_simp+

lemma cached_store_dir:
  "resolve_store_dir example_settings cached_world = [''srv'', ''ocr'', ''model_store'']"
  by code_simp

section \<open>Properties of the request pipeline\<close>

lemma ocr_disallowed:
  "\<not> allowed_content_type env (content_type file) \<Longrightarrow>
   ocr env s rid file =
     (Inl (APIError 415 ''unsupported_media_type''
             (''Unsupported file type: '' @ str_option (content_type file))), [])"
  by (simp add: ocr_def)

lemma ocr_too_large:
  "allowed_content_type env (content_type file) \<Longrightarrow> contents file \<noteq> [] \<Longrightarrow>
   int (length (contents file)) > max_upload_bytes s \<Longrightarrow>
   ocr env s rid file =
     (Inl (APIError 413 ''file_too_large''
             (''File exceeds '' @ str_int (max_upload_megabytes s) @ ''MB limit.'')),
      [Read_upload, Close_upload])"
  by (simp add: ocr_def Let_def)

lemma app_api_error:
  assumes "file_field request = Some file"
    and "ocr env s (case x_request_id request of Some v \<Rightarrow> v | None \<Rightarrow> uuid4 env 0) file
           = (Inl (APIError st code msg), events)"
  shows "app env s request =
           (\<lparr>status_code = st,
             response_x_request_id = Some (case x_request_id request of Some v \<Rightarrow> v | None \<Rightarrow> uuid4 env 0),
             body = ErrorResponse (case x_request_id request of Some v \<Rightarrow> v | None \<Rightarrow> uuid4 env 0) code msg\<rparr>,
            events @ [Log_error ''API error'', Log_info ''Request completed''])"
  using assms
  by (simp add: app_def request_context_middleware_def call_next_def Let_def
        api_error_handler_def state_request_id_def)

lemma ocr_events_invoke:
  assumes "Invoke_backend url \<in> set (snd (ocr env s rid file))"
  shows "fst (ocr env s rid file) =
           (case wait_for (run_ocr env url) (inference_timeout_seconds s) of
              Raises_TimeoutError \<Rightarrow> Inl (APIError 408 ''inference_timeout'' ''Inference timed out.'')
            | Raises_VLLMTimeoutError \<Rightarrow> Inl (APIError 408 ''inference_timeout'' ''Inference timed out.'')
            | Raises_VLLMError \<Rightarrow> Inl (APIError 503 ''inference_failure'' ''Model inference failed.'')
            | Raises_Exception \<Rightarrow> Inl (APIError 503 ''inference_failure'' ''Model inference failed.'')
            | Returns markdown \<Rightarrow>
                Inr (OCRResponse rid (model_name s) (strip markdown) (elapsed_ms env)))"
  using assms
  by (auto simp add: ocr_def Let_def split: if_splits sum.splits backend_outcome.splits)

lemma ocr_request_id:
  "ocr env s rid file = (Inr model, events) \<Longrightarrow> content_request_id model = rid"
  by (auto simp add: ocr_def Let_def split: if_splits sum.splits backend_outcome.splits)

lemma app_events:
  assumes "file_field request = Some file"
  shows "\<exists>extra. snd (app env s request) =
           snd (ocr env s (case x_request_id request of Some v \<Rightarrow> v | None \<Rightarrow> uuid4 env 0) file) @ extra
         \<and> (\<forall>url. Invoke_backend url \<notin> set extra)"
  using assms
  by (auto simp add: app_def request_context_middleware_def call_next_def Let_def
        split: prod.splits sum.splits handler_exn.splits)

lemma app_no_file_events:
  assumes "file_field request = None"
  shows "Invoke_backend url \<notin> set (snd (app env s request))"
  using assms
  by (auto simp add: app_def request_context_middleware_def call_next_def Let_def
        split: prod.splits sum.splits handler_exn.splits)

lemma wait_for_exceeded:
  "(case ends_after run of None \<Rightarrow> True | Some t \<Rightarrow> real_of_int timeout < t)
   \<Longrightarrow> wait_for run timeout = Raises_TimeoutError"
  by (simp add: wait_for_def split: option.splits)

lemma call_next_request_id:
  "call_next env s (Some rid) request = (Inr response, events) \<Longrightarrow>
   content_request_id (body response) = rid \<and> response_x_request_id response = None"
  by (auto simp add: call_next_def Let_def api_error_handler_def validation_error_handler_def
        state_request_id_def dest: ocr_request_id
        split: prod.splits sum.splits handler_exn.splits option.splits)

section \<open>Results on the model store\<close>

text \<open>
  C7: when the snapshot fetch returns normally and the artifact check that follows it
  still finds nothing, \<open>ensure_model_store\<close> raises the error ``Model bootstrap finished
  but expected artifacts were not found'' (a \<open>RuntimeError\<close> in the code) and does not
  return a directory.  The first four hypotheses say that the call reaches the fetch.
\<close>

theorem fetch_without_artifacts_fails:
  assumes "model_force_download s \<or> auto_download_model_store s"
    and "mkdir_p (fs w) (resolve_store_dir s w) = Some t1"
    and "has_expected_artifacts (w\<lparr>fs := t1\<rparr>) (resolve_repo_dir s w) (model_filename s) = Inr b"
    and "b \<longrightarrow> model_force_download s"
    and "download_model_snapshot s (resolve_store_dir s w) (w\<lparr>fs := t1\<rparr>) = (Inr u, w2)"
    and "has_expected_artifacts w2 (resolve_repo_dir s w) (model_filename s) = Inr False"
  shows "ensure_model_store s w =
           (Inl (RuntimeError (Bootstrap_finished_without_artifacts (resolve_repo_dir s w))), w2)"
  using assms by (cases s w rule: ensure_cases) auto

theorem fetch_without_artifacts_fails_witness:
  "fst (ensure_model_store download_settings example_world)
     = Inl (RuntimeError (Bootstrap_finished_without_artifacts
             [''srv'', ''ocr'', ''model_store'', ''allenai--olmOCR-2-7B-1025-FP8'']))
   \<and> map (map fst) (fetches (snd (ensure_model_store download_settings example_world)))
     = [[''repo_id'', ''local_dir'', ''force_download'']]"
proof -
  let ?w1 = "example_world\<lparr>fs := example_store_tree\<rparr>"
  let ?w2 = "snd (download_model_snapshot download_settings [''srv'', ''ocr'', ''model_store''] ?w1)"
  have p1: "model_force_download download_settings \<or> auto_download_model_store download_settings"
    by (simp add: download_settings_fields)
  have p2: "mkdir_p (fs example_world) (resolve_store_dir download_settings example_world)
              = Some example_store_tree"
    by (simp add: example_store_dir example_mkdir_store)
  have p3: "has_expected_artifacts ?w1 (resolve_repo_dir download_settings example_world)
              (model_filename download_settings) = Inr False"
    by (simp add: example_repo_dir download_settings_fields example_probe_empty)
  have p4: "False \<longrightarrow> model_force_download download_settings"
    by simp
  have p5: "download_model_snapshot download_settings
              (resolve_store_dir download_settings example_world) ?w1 = (Inr (), ?w2)"
    unfolding example_store_dir using example_fetch_returns by (simp add: prod_eq_iff)
  have p6: "has_expected_artifacts ?w2 (resolve_repo_dir download_settings example_world)
              (model_filename download_settings) = Inr False"
    by (simp add: example_repo_dir download_settings_fields example_probe_after_fetch)
  have "ensure_model_store download_settings example_world =
          (Inl (RuntimeError (Bootstrap_finished_without_artifacts
                  (resolve_repo_dir download_settings example_world))), ?w2)"
    by (rule fetch_without_artifacts_fails[OF p1 p2 p3 p4 p5 p6])
  then show ?thesis
    by (simp add: example_repo_dir example_fetch_log)
qed


text \<open>
  C10: a value other than \<open>None\<close> returned by \<open>ensure_model_store\<close> is the resolved
  store directory, on every path; the artifact directory of the repository is what
  \<open>resolve_repo_dir\<close> computes from it, the store directory joined with the repository
  id in which every \<open>/\<close> is replaced by \<open>--\<close>.
\<close>

theorem ensure_model_store_returns_store_root:
  assumes "ensure_model_store s w = (Inr (Some v), w')"
  shows "v = resolve_store_dir s w
       \<and> resolve_repo_dir s w = v @ parts (replace_slash (model_repo_id s))"
proof -
  have "v = resolve_store_dir s w"
    using assms by (cases s w rule: ensure_cases) auto
  then show ?thesis by (simp add: resolve_repo_dir_eq)
qed

theorem ensure_model_store_returns_store_root_witness:
  "fst (ensure_model_store example_settings cached_world) = Inr (Some [''srv'', ''ocr'', ''model_store''])
   \<and> resolve_store_dir example_settings cached_world = [''srv'', ''ocr'', ''model_store'']
   \<and> resolve_repo_dir example_settings cached_world
       = [''srv'', ''ocr'', ''model_store'', ''allenai--olmOCR-2-7B-1025-FP8'']"
proof -
  have "ensure_model_store example_settings cached_world
          = (Inr (Some [''srv'', ''ocr'', ''model_store'']),
             snd (ensure_model_store example_settings cached_world))"
    using cached_result by (simp add: prod_eq_iff)
  from ensure_model_store_returns_store_root[OF this] show ?thesis
    using cached_result cached_parts by auto
qed

text \<open>
  C8: whether the bootstrap marker can be written has no influence on what
  \<open>ensure_model_store\<close> returns or raises: the outcome with an unwritable marker is the
  outcome with a writable one.
\<close>

theorem marker_failure_not_fatal:
  "fst (ensure_model_store s (w\<lparr>marker_writable := False\<rparr>))
     = fst (ensure_model_store s (w\<lparr>marker_writable := True\<rparr>))"
  by (simp add: marker_result_free)

theorem marker_failure_not_fatal_witness:
  "fst (ensure_model_store example_settings (cached_world\<lparr>marker_writable := False\<rparr>))
     = Inr (Some [''srv'', ''ocr'', ''model_store''])
   \<and> logged (snd (ensure_model_store example_settings (cached_world\<lparr>marker_writable := False\<rparr>)))
     = [Warning ''Failed to update model_store bootstrap marker'']"
  using marker_failure_not_fatal[of example_settings cached_world]
  by (simp add: cached_result_writable cached_log_unwritable)

text \<open>
  C3: with the force flag unset, a call of \<open>ensure_model_store\<close> that returns normally
  has performed at most one fetch, and a second call in the world the first one left
  behind returns the same value and performs no fetch.
\<close>

theorem second_call_is_cache_hit:
  assumes nf: "\<not> model_force_download s"
    and first: "ensure_model_store s w = (Inr r, w1)"
  shows "fst (ensure_model_store s w1) = Inr r
       \<and> fetches (snd (ensure_model_store s w1)) = fetches w1
       \<and> length (fetches w1) \<le> Suc (length (fetches w))"
proof (cases s w rule: ensure_cases)
  case skip
  then show ?thesis using first by (auto simp add: ensure_skip)
next
  case no_store
  then show ?thesis using first by simp
next
  case (probe_raised t1 e)
  then show ?thesis using first by simp
next
  case (cache_hit t1)
  let ?w0 = "w\<lparr>fs := t1\<rparr>"
  have d0: "resolve_store_dir s ?w0 = resolve_store_dir s w"
    by (simp add: resolve_store_dir_def)
  have r0: "resolve_repo_dir s ?w0 = resolve_repo_dir s w"
    by (simp add: resolve_repo_dir_def resolve_store_dir_def)
  have w1: "w1 = write_bootstrap_marker (resolve_store_dir s ?w0) ?w0"
    and r: "r = Some (resolve_store_dir s w)"
    using cache_hit(5) first by (simp_all add: d0)
  have "ensure_model_store s w1 =
          (Inr (Some (resolve_store_dir s ?w0)), write_bootstrap_marker (resolve_store_dir s ?w0) w1)"
    using cache_hit(1) nf _ w1
  proof (rule ensure_again)
    show "has_expected_artifacts ?w0 (resolve_repo_dir s ?w0) (model_filename s) = Inr True"
      using cache_hit(3) by (simp only: r0)
  qed
  moreover have "fetches w1 = fetches w"
    by (simp add: w1 marker_fields)
  ultimately show ?thesis by (simp add: r d0 marker_fields)
next
  case (missing t1)
  then show ?thesis using first by simp
next
  case (download_raised t1 b e w2)
  then show ?thesis using first by simp
next
  case (probe_again_raised t1 b u e w2)
  then show ?thesis using first by simp
next
  case (still_missing t1 b u w2)
  then show ?thesis using first by simp
next
  case (fetched t1 b u w2)
  have fld: "absolute w2 = absolute w" "length (fetches w2) \<le> Suc (length (fetches w))"
    using download_fields[OF fetched(6)] by simp_all
  have d0: "resolve_store_dir s w2 = resolve_store_dir s w"
    by (simp add: resolve_store_dir_def fld)
  have r0: "resolve_repo_dir s w2 = resolve_repo_dir s w"
    by (simp add: resolve_repo_dir_def resolve_store_dir_def fld)
  have w1: "w1 = write_bootstrap_marker (resolve_store_dir s w2) w2"
    and r: "r = Some (resolve_store_dir s w)"
    using fetched(8) first by (simp_all add: d0)
  have "ensure_model_store s w1 =
          (Inr (Some (resolve_store_dir s w2)), write_bootstrap_marker (resolve_store_dir s w2) w1)"
    using fetched(1) nf _ w1
  proof (rule ensure_again)
    show "has_expected_artifacts w2 (resolve_repo_dir s w2) (model_filename s) = Inr True"
      using fetched(7) by (simp only: r0)
  qed
  moreover have "fetches w1 = fetches w2"
    by (simp add: w1 marker_fields)
  ultimately show ?thesis using fld(2) by (simp add: r d0 marker_fields)
qed

theorem second_call_is_cache_hit_witness:
  "fst (ensure_model_store download_settings delivering_world)
     = Inr (Some [''srv'', ''ocr'', ''model_store''])
   \<and> fst (ensure_model_store download_settings
            (snd (ensure_model_store download_settings delivering_world)))
     = Inr (Some [''srv'', ''ocr'', ''model_store''])
   \<and> length (fetches (snd (ensure_model_store download_settings
            (snd (ensure_model_store download_settings delivering_world))))) = 1"
proof -
  have nf: "\<not> model_force_download download_settings"
    by (simp add: download_settings_fields)
  have first: "ensure_model_store download_settings delivering_world
                 = (Inr (Some [''srv'', ''ocr'', ''model_store'']),
                    snd (ensure_model_store download_settings delivering_world))"
    using first_call by (simp add: prod_eq_iff)
  from second_call_is_cache_hit[OF nf first] show ?thesis
    by (simp add: first_call first_fetches)
qed

text \<open>When the fetch leaves no artifacts the first call raises, nothing is cached, and the
  second call fetches again: two fetches with the force flag unset.\<close>

theorem failed_bootstrap_fetches_twice:
  "\<not> model_force_download download_settings
   \<and> fst (ensure_model_store download_settings example_world)
       = Inl (RuntimeError (Bootstrap_finished_without_artifacts
               [''srv'', ''ocr'', ''model_store'', ''allenai--olmOCR-2-7B-1025-FP8'']))
   \<and> fst (ensure_model_store download_settings
            (snd (ensure_model_store download_settings example_world)))
       = Inl (RuntimeError (Bootstrap_finished_without_artifacts
               [''srv'', ''ocr'', ''model_store'', ''allenai--olmOCR-2-7B-1025-FP8'']))
   \<and> length (fetches example_world) = 0
   \<and> length (fetches (snd (ensure_model_store download_settings
            (snd (ensure_model_store download_settings example_world))))) = 2"
  by code_simp

text \<open>
  C4: with the force flag set, \<open>ensure_model_store\<close> performs exactly one fetch, with the
  arguments of \<open>_download_model_snapshot\<close>, whatever the artifact check finds, provided
  nothing raises before the fetch: the hub client is importable, the store directory
  and the artifact directory can be created, and the artifact check returns a value.
\<close>

theorem force_refresh_fetches:
  assumes force: "model_force_download s"
    and hub: "hub_installed w"
    and store: "mkdir_p (fs w) (resolve_store_dir s w) = Some t1"
    and probe: "has_expected_artifacts (w\<lparr>fs := t1\<rparr>) (resolve_repo_dir s w) (model_filename s) = Inr b"
    and repo: "mkdir_p t1 (resolve_repo_dir s w) = Some t2"
  shows "fetches (snd (ensure_model_store s w)) =
           fetches w @ [filter (\<lambda>kv. fst kv \<in> set (snapshot_params w) \<and> snd kv \<noteq> VNone)
                          (snapshot_kwargs s (resolve_repo_dir s w))]"
proof -
  let ?w1 = "w\<lparr>fs := t1\<rparr>"
  have r1: "resolve_repo_dir s ?w1 = resolve_repo_dir s w"
    by (simp add: resolve_repo_dir_def resolve_store_dir_def)
  have m1: "mkdir_p (fs ?w1) (resolve_store_dir s w) = Some t1"
    using mkdir_p_idem[OF store] by simp
  have m2: "mkdir_p t1 (resolve_repo_dir s ?w1) = Some t2"
    using repo by (simp only: r1)
  have h1: "hub_installed ?w1"
    using hub by simp
  have "fetches (snd (download_model_snapshot s (resolve_store_dir s w) ?w1)) =
           fetches ?w1 @ [filter (\<lambda>kv. fst kv \<in> set (snapshot_params ?w1) \<and> snd kv \<noteq> VNone)
                          (snapshot_kwargs s (resolve_repo_dir s ?w1))]"
    using h1 m1 m2 by (rule download_fetches_general)
  then have dl: "fetches (snd (download_model_snapshot s (resolve_store_dir s w) ?w1)) =
           fetches w @ [filter (\<lambda>kv. fst kv \<in> set (snapshot_params w) \<and> snd kv \<noteq> VNone)
                          (snapshot_kwargs s (resolve_repo_dir s w))]"
    by (simp add: r1)
  show ?thesis
  proof (cases s w rule: ensure_cases)
    case skip
    then show ?thesis using force by simp
  next
    case no_store
    then show ?thesis using store by simp
  next
    case (probe_raised t1' e)
    then show ?thesis using store probe by simp
  next
    case (cache_hit t1')
    then show ?thesis using force by simp
  next
    case (missing t1')
    then show ?thesis using force by simp
  next
    case (download_raised t1' b' e w2)
    then show ?thesis using store dl by simp
  next
    case (probe_again_raised t1' b' u e w2)
    then show ?thesis using store dl by simp
  next
    case (still_missing t1' b' u w2)
    then show ?thesis using store dl by simp
  next
    case (fetched t1' b' u w2)
    then show ?thesis using store dl by (simp add: marker_fields)
  qed
qed

theorem force_refresh_fetches_witness:
  "has_expected_artifacts cached_world (resolve_repo_dir force_settings cached_world)
     (model_filename force_settings) = Inr True
   \<and> fetches (snd (ensure_model_store force_settings cached_world))
     = [[(''repo_id'', VStr ''allenai/olmOCR-2-7B-1025-FP8''),
         (''local_dir'', VStr ''/srv/ocr/model_store/allenai--olmOCR-2-7B-1025-FP8''),
         (''force_download'', VBool True)]]"
  using force_refresh_fetches[OF force_example_fields(1) force_example_fields(2)
          force_example_store(1) force_example_store(2) force_example_store(3)]
  by (simp add: force_example_probe force_example_kwargs force_example_fields(3))

text \<open>Without the hub client the forced call raises before any fetch, although the
  artifacts are there.\<close>

theorem force_without_hub_client_fetches_nothing:
  "model_force_download force_settings
   \<and> has_expected_artifacts no_hub_world (resolve_repo_dir force_settings no_hub_world)
        (model_filename force_settings) = Inr True
   \<and> fst (ensure_model_store force_settings no_hub_world) = Inl (RuntimeError Hub_client_required)
   \<and> fetches (snd (ensure_model_store force_settings no_hub_world)) = fetches no_hub_world"
  by code_simp

section \<open>Results on the configuration\<close>






section \<open>Results on the request pipeline\<close>

text \<open>
  C5: an upload whose declared content type is not in the allow-list is answered with
  status 415 and the error code \<open>unsupported_media_type\<close>; the handler never calls
  \<open>file.read()\<close> and never invokes the backend.
\<close>

theorem disallowed_type_short_circuits:
  assumes "file_field request = Some file"
    and "\<not> allowed_content_type env (content_type file)"
  shows "status_code (fst (app env s request)) = 415
       \<and> content_error_code (body (fst (app env s request))) = Some ''unsupported_media_type''
       \<and> snd (app env s request) = [Log_error ''API error'', Log_info ''Request completed'']
       \<and> Read_upload \<notin> set (snd (app env s request))
       \<and> (\<forall>url. Invoke_backend url \<notin> set (snd (app env s request)))"
  using app_api_error[OF assms(1) ocr_disallowed[OF assms(2)]] by simp

lemma pdf_not_allowed: "\<not> allowed_content_type example_env (content_type pdf_upload)"
  by code_simp

theorem disallowed_type_short_circuits_witness:
  "status_code (fst (app example_env example_settings
                       \<lparr>x_request_id = Some ''abc'', file_field = Some pdf_upload\<rparr>)) = 415
   \<and> snd (app example_env example_settings
             \<lparr>x_request_id = Some ''abc'', file_field = Some pdf_upload\<rparr>)
       = [Log_error ''API error'', Log_info ''Request completed'']"
  using disallowed_type_short_circuits[of "\<lparr>x_request_id = Some ''abc'', file_field = Some pdf_upload\<rparr>"
          pdf_upload example_env example_settings]
  by (simp add: pdf_not_allowed)

text \<open>
  C1: an upload with an allowed content type and a payload that is not empty and longer
  than the configured ceiling is answered with status 413 and the error code
  \<open>file_too_large\<close>, whichever allowed type it declares and whatever the backend would
  do: the backend is not invoked.
\<close>

theorem oversize_is_413:
  assumes "file_field request = Some file"
    and "allowed_content_type env (content_type file)"
    and "contents file \<noteq> []"
    and "int (length (contents file)) > max_upload_bytes s"
  shows "status_code (fst (app env s request)) = 413
       \<and> content_error_code (body (fst (app env s request))) = Some ''file_too_large''
       \<and> (\<forall>url. Invoke_backend url \<notin> set (snd (app env s request)))"
  using app_api_error[OF assms(1) ocr_too_large[OF assms(2) assms(3) assms(4)]] by simp

lemma oversize_jpeg_facts:
  "allowed_content_type example_env (content_type oversize_jpeg_upload)"
  "contents oversize_jpeg_upload \<noteq> []"
  "int (length (contents oversize_jpeg_upload)) > max_upload_bytes example_settings"
  by (simp_all add: allowed_content_type_def example_env_def oversize_jpeg_upload_def
        max_upload_bytes_def example_settings_def)

theorem oversize_is_413_witness:
  "int (length (contents oversize_jpeg_upload)) = 15 * 1024 * 1024 + 1
   \<and> max_upload_bytes example_settings = 15 * 1024 * 1024
   \<and> status_code (fst (app example_env example_settings
                       \<lparr>x_request_id = None, file_field = Some oversize_jpeg_upload\<rparr>)) = 413"
  using oversize_is_413[of "\<lparr>x_request_id = None, file_field = Some oversize_jpeg_upload\<rparr>"
          oversize_jpeg_upload example_env example_settings]
  by (simp add: oversize_jpeg_facts)
     (simp add: oversize_jpeg_upload_def max_upload_bytes_def example_settings_def)

text \<open>An oversize payload with a content type outside the allow-list is answered with 415:
  the content type is checked first.\<close>

theorem oversize_disallowed_type_is_415:
  "int (length (contents oversize_pdf_upload)) > max_upload_bytes example_settings
   \<and> status_code (fst (app example_env example_settings
                       \<lparr>x_request_id = None, file_field = Some oversize_pdf_upload\<rparr>)) = 415
   \<and> content_error_code (body (fst (app example_env example_settings
                       \<lparr>x_request_id = None, file_field = Some oversize_pdf_upload\<rparr>)))
       = Some ''unsupported_media_type''"
proof -
  have "\<not> allowed_content_type example_env (content_type oversize_pdf_upload)"
    by (simp add: allowed_content_type_def example_env_def oversize_pdf_upload_def)
  from app_api_error[OF _ ocr_disallowed[OF this],
         of "\<lparr>x_request_id = None, file_field = Some oversize_pdf_upload\<rparr>" example_settings]
  show ?thesis
    by (simp add: oversize_pdf_upload_def max_upload_bytes_def example_settings_def)
qed

text \<open>
  C6: when the backend has been invoked and its run does not end within the configured
  inference timeout, the response has status 408 and the error code
  \<open>inference_timeout\<close>.
\<close>

theorem timeout_is_408:
  assumes invoked: "Invoke_backend url \<in> set (snd (app env s request))"
    and exceeded: "case ends_after (run_ocr env url) of
                     None \<Rightarrow> True
                   | Some t \<Rightarrow> real_of_int (inference_timeout_seconds s) < t"
  shows "status_code (fst (app env s request)) = 408
       \<and> content_error_code (body (fst (app env s request))) = Some ''inference_timeout''"
proof -
  let ?rid = "case x_request_id request of Some v \<Rightarrow> v | None \<Rightarrow> uuid4 env 0"
  obtain upl where upl: "file_field request = Some upl"
    using invoked app_no_file_events[of request url env s] by (cases "file_field request") auto
  from app_events[OF upl, of env s] invoked
  have "Invoke_backend url \<in> set (snd (ocr env s ?rid upl))"
    by auto
  then have "fst (ocr env s ?rid upl) = Inl (APIError 408 ''inference_timeout'' ''Inference timed out.'')"
    by (simp add: ocr_events_invoke wait_for_exceeded[OF exceeded])
  then have "ocr env s ?rid upl =
               (Inl (APIError 408 ''inference_timeout'' ''Inference timed out.''),
                snd (ocr env s ?rid upl))"
    by (simp add: prod_eq_iff)
  from app_api_error[OF upl this] show ?thesis by simp
qed

lemma slow_example_invoked:
  "Invoke_backend ''data:image/jpeg;base64,''
     \<in> set (snd (app slow_env example_settings
                    \<lparr>x_request_id = None, file_field = Some jpeg_upload\<rparr>))"
  by code_simp

lemma slow_example_exceeds:
  "ends_after (run_ocr slow_env ''data:image/jpeg;base64,'') = Some 120"
  "inference_timeout_seconds example_settings = 90"
  by (simp_all add: slow_env_def example_env_def example_settings_def)

theorem timeout_is_408_witness:
  "ends_after (run_ocr slow_env ''data:image/jpeg;base64,'') = Some 120
   \<and> inference_timeout_seconds example_settings = 90
   \<and> status_code (fst (app slow_env example_settings
                       \<lparr>x_request_id = None, file_field = Some jpeg_upload\<rparr>)) = 408
   \<and> content_error_code (body (fst (app slow_env example_settings
                       \<lparr>x_request_id = None, file_field = Some jpeg_upload\<rparr>)))
       = Some ''inference_timeout''"
  using timeout_is_408[OF slow_example_invoked] by (simp add: slow_example_exceeds)

text \<open>
  C9: the request id in the body of every response, for a success and for each kind of
  error, is the value of the \<open>x-request-id\<close> header of the request when it has one,
  and the first new identifier otherwise.  The response header carries the same id,
  except on the response of \<open>generic_error_handler\<close> (status 500), which has none.
\<close>

theorem correlation_id_echoed:
  "content_request_id (body (fst (app env s request)))
     = (case x_request_id request of Some v \<Rightarrow> v | None \<Rightarrow> uuid4 env 0)
   \<and> (response_x_request_id (fst (app env s request))
         = Some (case x_request_id request of Some v \<Rightarrow> v | None \<Rightarrow> uuid4 env 0)
       \<or> response_x_request_id (fst (app env s request)) = None
         \<and> status_code (fst (app env s request)) = 500)"
proof -
  let ?rid = "case x_request_id request of Some v \<Rightarrow> v | None \<Rightarrow> uuid4 env 0"
  obtain result events where c: "call_next env s (Some ?rid) request = (result, events)"
    by (cases "call_next env s (Some ?rid) request") auto
  show ?thesis
  proof (cases result)
    case (Inl e)
    with c show ?thesis
      by (simp add: app_def request_context_middleware_def Let_def generic_error_handler_def
            state_request_id_def)
  next
    case (Inr response)
    with c call_next_request_id[of env s ?rid request response events] show ?thesis
      by (simp add: app_def request_context_middleware_def Let_def)
  qed
qed

lemma example_uuid: "uuid4 example_env 0 = ''uuid-0''" "uuid4 failing_helper_env 0 = ''uuid-0''"
  by code_simp+

lemma example_statuses:
  "status_code (fst (app example_env example_settings
                       \<lparr>x_request_id = Some ''abc'', file_field = Some jpeg_upload\<rparr>)) = 200"
  "status_code (fst (app failing_helper_env example_settings
                       \<lparr>x_request_id = None, file_field = Some jpeg_upload\<rparr>)) = 500"
  by code_simp+

theorem correlation_id_echoed_witness:
  "status_code (fst (app example_env example_settings
                       \<lparr>x_request_id = Some ''abc'', file_field = Some jpeg_upload\<rparr>)) = 200
   \<and> content_request_id (body (fst (app example_env example_settings
                       \<lparr>x_request_id = Some ''abc'', file_field = Some jpeg_upload\<rparr>))) = ''abc''
   \<and> status_code (fst (app failing_helper_env example_settings
                       \<lparr>x_request_id = None, file_field = Some jpeg_upload\<rparr>)) = 500
   \<and> content_request_id (body (fst (app failing_helper_env example_settings
                       \<lparr>x_request_id = None, file_field = Some jpeg_upload\<rparr>))) = ''uuid-0''"
  using correlation_id_echoed[of example_env example_settings
          "\<lparr>x_request_id = Some ''abc'', file_field = Some jpeg_upload\<rparr>"]
        correlation_id_echoed[of failing_helper_env example_settings
          "\<lparr>x_request_id = None, file_field = Some jpeg_upload\<rparr>"]
  by (simp add: example_uuid example_statuses)


end
